theory Spec2Isabelle
  imports Main
begin

section \<open>Python values, exceptions and builtins\<close>

text \<open>
  A raised exception is identified by its class and the proper ancestors of that class.
  An \<^verbatim>\<open>except C\<close> clause catches by \<^verbatim>\<open>isinstance\<close>; \<^verbatim>\<open>type(error)\<close> is the class itself.
\<close>

datatype py_exception = PyExc (exc_type: string) (exc_bases: "string list")

definition isinstance :: "py_exception \<Rightarrow> string \<Rightarrow> bool" where
  "isinstance e c = (exc_type e = c \<or> c \<in> set (exc_bases e))"

definition ValueError :: py_exception where
  "ValueError = PyExc ''ValueError'' [''Exception'']"

definition TypeError :: py_exception where
  "TypeError = PyExc ''TypeError'' [''Exception'']"

definition KeyError :: py_exception where
  "KeyError = PyExc ''KeyError'' [''LookupError'', ''Exception'']"

definition IndexError :: py_exception where
  "IndexError = PyExc ''IndexError'' [''LookupError'', ''Exception'']"

definition AttributeError :: py_exception where
  "AttributeError = PyExc ''AttributeError'' [''Exception'']"

text \<open>\<^verbatim>\<open>xs[i]\<close> for a non-negative index: IndexError out of range.\<close>

definition py_getitem :: "'a list \<Rightarrow> nat \<Rightarrow> py_exception + 'a" where
  "py_getitem xs i = (if i < length xs then Inr (xs ! i) else Inl IndexError)"

text \<open>
  \<^verbatim>\<open>s.split(sep)\<close> for a separator of one character: the string is cut at every
  occurrence, empty fields are kept, and the result always has at least one field.
\<close>

fun py_split :: "char \<Rightarrow> string \<Rightarrow> string list" where
  "py_split c [] = [[]]"
| "py_split c (x # xs) =
     (if x = c then [] # py_split c xs
      else (case py_split c xs of
              [] \<Rightarrow> [[x]]
            | w # ws \<Rightarrow> (x # w) # ws))"

text \<open>\<^verbatim>\<open>sub in s\<close> on strings: \<open>sub\<close> occurs as a contiguous substring.\<close>

fun py_in_str :: "string \<Rightarrow> string \<Rightarrow> bool" where
  "py_in_str sub [] = (sub = [])"
| "py_in_str sub (c # cs) = (take (length sub) (c # cs) = sub \<or> py_in_str sub cs)"

text \<open>\<^verbatim>\<open>xs.index(x)\<close>: the first position of \<open>x\<close>, ValueError when absent.\<close>

fun py_index :: "'a list \<Rightarrow> 'a \<Rightarrow> py_exception + nat" where
  "py_index [] x = Inl ValueError"
| "py_index (y # ys) x =
     (if y = x then Inr 0
      else (case py_index ys x of Inl e \<Rightarrow> Inl e | Inr i \<Rightarrow> Inr (Suc i)))"

text \<open>\<^verbatim>\<open>max(xs)\<close> on a list of integers: ValueError on the empty list.\<close>

definition py_max :: "int list \<Rightarrow> py_exception + int" where
  "py_max xs = (case xs of [] \<Rightarrow> Inl ValueError | y # ys \<Rightarrow> Inr (fold max ys y))"

section \<open>const.py: configuration constants\<close>

definition DEFAULT_DEFAULT_VOLUME :: int where "DEFAULT_DEFAULT_VOLUME = 40"
definition DEFAULT_MAX_VOLUME :: int where "DEFAULT_MAX_VOLUME = 100"

section \<open>config\_flow.py\<close>

text \<open>The Beolink self record and the volume settings the vendor client returns.\<close>

record beolink_self =
  bs_friendly_name :: string
  bs_jid :: string

record volume_level =
  vl_level :: "int option"

record volume_settings =
  vs_default :: "volume_level option"
  vs_maximum :: "volume_level option"

text \<open>
  \<^verbatim>\<open>UserInput\<close> is a TypedDict with \<^verbatim>\<open>total=False\<close>: every key may be missing
  (\<open>None\<close>), and reading a missing key raises KeyError.
\<close>

record UserInput =
  ui_default_volume :: "int option"
  ui_host :: "string option"
  ui_jid :: "string option"
  ui_max_volume :: "int option"
  ui_model :: "string option"
  ui_name :: "string option"

definition UserInput_empty :: UserInput where
  "UserInput_empty = \<lparr>ui_default_volume = None, ui_host = None, ui_jid = None,
     ui_max_volume = None, ui_model = None, ui_name = None\<rparr>"

text \<open>The fields of \<^verbatim>\<open>BangOlufsenConfigFlowHandler\<close>, and the unique id the host keeps
  for the flow.\<close>

record config_flow =
  cf_beolink_jid :: string
  cf_host :: string
  cf_model :: string
  cf_name :: string
  cf_serial_number :: string
  cf_unique_id :: "string option"

text \<open>
  What the host platform decides, taken as parameters: whether
  \<^verbatim>\<open>ipaddress.ip_address\<close> accepts a string, and whether a unique id is already in
  progress or already configured (the two ways \<^verbatim>\<open>async_set_unique_id\<close> and
  \<^verbatim>\<open>_abort_if_unique_id_configured\<close> abort a flow).
\<close>

record config_host =
  ip_address_valid :: "string \<Rightarrow> bool"
  unique_id_in_progress :: "string \<Rightarrow> bool"
  unique_id_configured :: "string \<Rightarrow> bool"

text \<open>The outcome of each request of the vendor client: an exception or the response.\<close>

record flow_client =
  get_beolink_self :: "py_exception + beolink_self"
  get_volume_settings :: "py_exception + volume_settings"

text \<open>A request as issued, with its \<^verbatim>\<open>_request_timeout\<close> in seconds when one is given.\<close>

datatype flow_request = GetBeolinkSelf "nat option" | GetVolumeSettings "nat option"

datatype flow_result =
    Abort string
  | ShowForm string int int
  | ShowConfirm
  | CreateEntry string UserInput
  | Raised py_exception

type_synonym step_result = "config_flow \<times> flow_request list \<times> flow_result"

text \<open>The handler both steps share word for word:
  \<^verbatim>\<open>except (ApiException, ClientConnectorError, TimeoutError) as error:
      return self.async_abort(reason={...}[type(error)])\<close>
  The clause catches by \<^verbatim>\<open>isinstance\<close>; the dict is indexed by the exact class.\<close>

definition abort_reasons :: "(string \<times> string) list" where
  "abort_reasons =
     [(''ApiException'', ''api_exception''),
      (''ClientConnectorError'', ''client_connector_error''),
      (''TimeoutError'', ''timeout_error'')]"

definition request_error_result :: "py_exception \<Rightarrow> flow_result" where
  "request_error_result error =
     (if isinstance error ''ApiException'' \<or> isinstance error ''ClientConnectorError''
         \<or> isinstance error ''TimeoutError''
      then (case map_of abort_reasons (exc_type error) of
              None \<Rightarrow> Raised KeyError
            | Some reason \<Rightarrow> Abort reason)
      else Raised error)"

text \<open>\<^verbatim>\<open>jid.split(".")[2].split("@")[0]\<close>, as written in \<^verbatim>\<open>async_step_user\<close> and in
  \<^verbatim>\<open>_get_entity_id_from_jid\<close>.\<close>

definition jid_serial_number :: "string \<Rightarrow> py_exception + string" where
  "jid_serial_number jid =
     (case py_getitem (py_split (CHR ''.'') jid) 2 of
        Inl e \<Rightarrow> Inl e
      | Inr part \<Rightarrow> py_getitem (py_split (CHR ''@'') part) 0)"

text \<open>\<^verbatim>\<open>x.level if x and x.level else default\<close>: a level of 0 is falsy.\<close>

definition level_or :: "volume_level option \<Rightarrow> int \<Rightarrow> int" where
  "level_or x d =
     (case x of
        None \<Rightarrow> d
      | Some v \<Rightarrow> (case vl_level v of None \<Rightarrow> d | Some l \<Rightarrow> if l = 0 then d else l))"

definition compile_data :: "flow_client \<Rightarrow> config_flow \<Rightarrow> py_exception + UserInput" where
  "compile_data client flow =
     (case get_volume_settings client of
        Inl e \<Rightarrow> Inl e
      | Inr volume_settings \<Rightarrow>
          Inr (UserInput_empty\<lparr>
            ui_default_volume := Some (level_or (vs_default volume_settings) DEFAULT_DEFAULT_VOLUME),
            ui_host := Some (cf_host flow),
            ui_jid := Some (cf_beolink_jid flow),
            ui_max_volume := Some (level_or (vs_maximum volume_settings) DEFAULT_MAX_VOLUME),
            ui_model := Some (cf_model flow)\<rparr>))"

definition async_step_confirm ::
  "config_host \<Rightarrow> flow_client \<Rightarrow> config_flow \<Rightarrow> UserInput option \<Rightarrow> step_result" where
  "async_step_confirm H client flow user_input =
     (case user_input of
        Some _ \<Rightarrow>
          (case compile_data client flow of
             Inl e \<Rightarrow> (flow, [GetVolumeSettings None], Raised e)
           | Inr data \<Rightarrow> (flow, [GetVolumeSettings None], CreateEntry (cf_name flow) data))
      | None \<Rightarrow>
          (let flow1 = flow\<lparr>cf_name := cf_model flow @ ''-'' @ cf_serial_number flow\<rparr> in
           if unique_id_in_progress H (cf_serial_number flow1)
           then (flow1, [], Abort ''already_in_progress'')
           else
             (let flow2 = flow1\<lparr>cf_unique_id := Some (cf_serial_number flow1)\<rparr> in
              if unique_id_configured H (cf_serial_number flow2)
              then (flow2, [], Abort ''already_configured'')
              else (flow2, [], ShowConfirm))))"

definition async_step_user ::
  "config_host \<Rightarrow> flow_client \<Rightarrow> config_flow \<Rightarrow> UserInput option \<Rightarrow> step_result" where
  "async_step_user H client flow user_input =
     (case user_input of
        None \<Rightarrow> (flow, [], ShowForm ''user'' 0 0)
      | Some ui \<Rightarrow>
          (case ui_host ui of
             None \<Rightarrow> (flow, [], Raised KeyError)
           | Some h \<Rightarrow>
          (case ui_model ui of
             None \<Rightarrow> (flow\<lparr>cf_host := h\<rparr>, [], Raised KeyError)
           | Some m \<Rightarrow>
          (let flow1 = flow\<lparr>cf_host := h, cf_model := m\<rparr> in
           if \<not> ip_address_valid H (cf_host flow1)
           then (flow1, [], Abort ''value_error'')
           else
             (case get_beolink_self client of
                Inl error \<Rightarrow> (flow1, [GetBeolinkSelf (Some 3)], request_error_result error)
              | Inr beolink_self \<Rightarrow>
                  (let flow2 = flow1\<lparr>cf_beolink_jid := bs_jid beolink_self\<rparr> in
                   case jid_serial_number (bs_jid beolink_self) of
                     Inl e \<Rightarrow> (flow2, [GetBeolinkSelf (Some 3)], Raised e)
                   | Inr serial \<Rightarrow>
                       (let flow3 = flow2\<lparr>cf_serial_number := serial\<rparr> in
                        if unique_id_in_progress H serial
                        then (flow3, [GetBeolinkSelf (Some 3)], Abort ''already_in_progress'')
                        else
                          (let flow4 = flow3\<lparr>cf_unique_id := Some serial\<rparr> in
                           if unique_id_configured H serial
                           then (flow4, [GetBeolinkSelf (Some 3)], Abort ''already_configured'')
                           else
                             (case async_step_confirm H client flow4 None of
                                (flow5, reqs, res) \<Rightarrow>
                                  (flow5, GetBeolinkSelf (Some 3) # reqs, res))))))))))"

text \<open>The zeroconf step. \<open>properties\<close> is the discovery record's dict; reading a
  missing key raises KeyError. \<^verbatim>\<open>hostname[:-16]\<close> drops the last 16 characters.\<close>

definition ATTR_TYPE_NUMBER :: string where "ATTR_TYPE_NUMBER = ''tn''"
definition ATTR_SERIAL_NUMBER :: string where "ATTR_SERIAL_NUMBER = ''sn''"
definition ATTR_ITEM_NUMBER :: string where "ATTR_ITEM_NUMBER = ''in''"
definition ATTR_FRIENDLY_NAME :: string where "ATTR_FRIENDLY_NAME = ''fn''"

record zeroconf_info =
  zc_host :: string
  zc_hostname :: string
  zc_properties :: "string \<rightharpoonup> string"

definition zeroconf_beolink_jid :: "string \<Rightarrow> string \<Rightarrow> string \<Rightarrow> string" where
  "zeroconf_beolink_jid tn itn sn = tn @ ''.'' @ itn @ ''.'' @ sn @ ''@products.bang-olufsen.com''"

definition async_step_zeroconf ::
  "config_host \<Rightarrow> flow_client \<Rightarrow> config_flow \<Rightarrow> zeroconf_info \<Rightarrow> step_result" where
  "async_step_zeroconf H client flow discovery_info =
     (if zc_properties discovery_info ATTR_FRIENDLY_NAME = None
      then (flow, [], Abort ''not_mozart_device'')
      else
        (let flow1 = flow\<lparr>cf_host := zc_host discovery_info,
               cf_model := map (\<lambda>c. if c = CHR ''-'' then CHR '' '' else c)
                 (take (length (zc_hostname discovery_info) - 16) (zc_hostname discovery_info))\<rparr> in
         case zc_properties discovery_info ATTR_SERIAL_NUMBER of
           None \<Rightarrow> (flow1, [], Raised KeyError)
         | Some sn \<Rightarrow>
         (let flow2 = flow1\<lparr>cf_serial_number := sn\<rparr> in
          case zc_properties discovery_info ATTR_TYPE_NUMBER of
            None \<Rightarrow> (flow2, [], Raised KeyError)
          | Some tn \<Rightarrow>
          (case zc_properties discovery_info ATTR_ITEM_NUMBER of
             None \<Rightarrow> (flow2, [], Raised KeyError)
           | Some itn \<Rightarrow>
           (let flow3 = flow2\<lparr>cf_beolink_jid := zeroconf_beolink_jid tn itn sn\<rparr> in
            if unique_id_in_progress H sn
            then (flow3, [], Abort ''already_in_progress'')
            else
              (let flow4 = flow3\<lparr>cf_unique_id := Some sn\<rparr> in
               if unique_id_configured H sn
               then (flow4, [], Abort ''already_configured'')
               else async_step_confirm H client flow4 None))))))"

text \<open>The options flow: the fields of the config entry it was created for.\<close>

record config_entry =
  ce_title :: string
  ce_host :: string
  ce_model :: string
  ce_jid :: string

definition async_step_init ::
  "flow_client \<Rightarrow> config_entry \<Rightarrow> UserInput option \<Rightarrow> flow_request list \<times> flow_result" where
  "async_step_init client entry user_input =
     (case user_input of
        Some ui \<Rightarrow>
          ([], CreateEntry (ce_title entry)
                 (ui\<lparr>ui_model := Some (ce_model entry),
                     ui_jid := Some (ce_jid entry),
                     ui_host := Some (ce_host entry)\<rparr>))
      | None \<Rightarrow>
          (case get_volume_settings client of
             Inl error \<Rightarrow> ([GetVolumeSettings (Some 3)], request_error_result error)
           | Inr volume_settings \<Rightarrow>
               ([GetVolumeSettings (Some 3)],
                ShowForm ''init''
                  (level_or (vs_default volume_settings) DEFAULT_DEFAULT_VOLUME)
                  (level_or (vs_maximum volume_settings) DEFAULT_MAX_VOLUME))))"

section \<open>Values that travel with a Beolink command\<close>

text \<open>
  A command parameter is \<^verbatim>\<open>None\<close>, a string (what the service schema delivers), or the
  float or bool a previous conversion produced (what the dispatcher relays). Python's
  floats are kept abstract (\<open>'f\<close>); the operations on them that the code uses are the
  fields of \<open>py_builtins\<close>: \<^verbatim>\<open>float(s)\<close> on a string (\<open>None\<close> is ValueError),
  \<^verbatim>\<open>float(b)\<close> on a bool, \<^verbatim>\<open>bool(f)\<close>, \<^verbatim>\<open>str(f)\<close>, and \<^verbatim>\<open>int(f * k)\<close>.
\<close>

datatype 'f py_value = PNone | PStr string | PFloat 'f | PBool bool

record 'f py_builtins =
  float_of_str :: "string \<Rightarrow> 'f option"
  float_of_bool :: "bool \<Rightarrow> 'f"
  float_is_zero :: "'f \<Rightarrow> bool"
  str_of_float :: "'f \<Rightarrow> string"
  int_of_float_times :: "'f \<Rightarrow> int \<Rightarrow> py_exception + int"

definition py_float :: "'f py_builtins \<Rightarrow> 'f py_value \<Rightarrow> py_exception + 'f" where
  "py_float B v =
     (case v of
        PNone \<Rightarrow> Inl TypeError
      | PStr s \<Rightarrow> (case float_of_str B s of None \<Rightarrow> Inl ValueError | Some f \<Rightarrow> Inr f)
      | PFloat f \<Rightarrow> Inr f
      | PBool b \<Rightarrow> Inr (float_of_bool B b))"

definition py_bool :: "'f py_builtins \<Rightarrow> 'f py_value \<Rightarrow> bool" where
  "py_bool B v =
     (case v of
        PNone \<Rightarrow> False
      | PStr s \<Rightarrow> s \<noteq> []
      | PFloat f \<Rightarrow> \<not> float_is_zero B f
      | PBool b \<Rightarrow> b)"

definition py_str :: "'f py_builtins \<Rightarrow> 'f py_value \<Rightarrow> string" where
  "py_str B v =
     (case v of
        PNone \<Rightarrow> ''None''
      | PStr s \<Rightarrow> s
      | PFloat f \<Rightarrow> str_of_float B f
      | PBool b \<Rightarrow> (if b then ''True'' else ''False''))"

text \<open>The last element of a command tuple: \<^verbatim>\<open>float\<close>, \<^verbatim>\<open>bool\<close>, \<^verbatim>\<open>str\<close> or \<^verbatim>\<open>None\<close>.
  \<open>call_type\<close> is \<^verbatim>\<open>parameter_type(parameter)\<close>; calling \<^verbatim>\<open>None\<close> is a TypeError.\<close>

datatype parameter_type = float_type | bool_type | str_type | none_type

definition call_type ::
  "'f py_builtins \<Rightarrow> parameter_type \<Rightarrow> 'f py_value \<Rightarrow> py_exception + 'f py_value" where
  "call_type B t v =
     (case t of
        float_type \<Rightarrow> (case py_float B v of Inl e \<Rightarrow> Inl e | Inr f \<Rightarrow> Inr (PFloat f))
      | bool_type \<Rightarrow> Inr (PBool (py_bool B v))
      | str_type \<Rightarrow> Inr (PStr (py_str B v))
      | none_type \<Rightarrow> Inl TypeError)"

section \<open>const.py: enums and tuples\<close>

definition ArtSizeEnum :: "(string \<times> int) list" where
  "ArtSizeEnum = [(''small'', 1), (''medium'', 2), (''large'', 3)]"

text \<open>The members of the host's \<^verbatim>\<open>MediaPlayerState\<close> that \<^verbatim>\<open>StateEnum\<close> refers to.\<close>

datatype MediaPlayerState = State_PLAYING | State_PAUSED | State_IDLE

text \<open>\<^verbatim>\<open>StateEnum\<close> by member name, as \<^verbatim>\<open>StateEnum[name]\<close> reads it (aliases included).\<close>

definition StateEnum :: "(string \<times> MediaPlayerState) list" where
  "StateEnum =
     [(''started'', State_PLAYING),
      (''buffering'', State_PLAYING),
      (''idle'', State_IDLE),
      (''paused'', State_PAUSED),
      (''stopped'', State_PAUSED),
      (''ended'', State_PAUSED),
      (''error'', State_IDLE),
      (''unknown'', State_IDLE),
      (''networkStandby'', State_IDLE)]"

definition BANGOLUFSEN_ON :: string where "BANGOLUFSEN_ON = ''on''"

definition PLAYING :: "string list" where
  "PLAYING = [''started'', ''buffering'', BANGOLUFSEN_ON]"

definition NOT_PLAYING :: "string list" where
  "NOT_PLAYING = [''idle'', ''paused'', ''stopped'', ''ended'', ''unknown'', ''error'']"

definition BangOlufsenMediaType_FAVOURITE :: string where
  "BangOlufsenMediaType_FAVOURITE = ''favourite''"
definition BangOlufsenMediaType_DEEZER :: string where
  "BangOlufsenMediaType_DEEZER = ''deezer''"
definition BangOlufsenMediaType_RADIO :: string where
  "BangOlufsenMediaType_RADIO = ''radio''"
definition BangOlufsenMediaType_TTS :: string where
  "BangOlufsenMediaType_TTS = ''provider''"

definition ModelEnum :: "string list" where
  "ModelEnum =
     [''BeoLab 28'', ''Beosound 2 3rd Gen'', ''Beosound A5'', ''Beosound A9 5th Gen'',
      ''Beosound Balance'', ''Beosound Emerge'', ''Beosound Level'', ''Beosound Theatre'']"

definition COMPATIBLE_MODELS :: "string list" where
  "COMPATIBLE_MODELS = ModelEnum"

definition SupportEnum_PROXIMITY_SENSOR :: "string list" where
  "SupportEnum_PROXIMITY_SENSOR =
     [''BeoLab 28'', ''Beosound 2 3rd Gen'', ''Beosound Balance'', ''Beosound Level'',
      ''Beosound Theatre'']"


record source =
  src_id :: string
  src_is_enabled :: "bool option"
  src_is_playable :: "bool option"
  src_name :: string
  src_type :: string



definition BEOLINK_LEADER_COMMAND :: string where
  "BEOLINK_LEADER_COMMAND = ''BEOLINK_LEADER_COMMAND''"
definition BEOLINK_LISTENER_COMMAND :: string where
  "BEOLINK_LISTENER_COMMAND = ''BEOLINK_LISTENER_COMMAND''"
definition BEOLINK_VOLUME :: string where
  "BEOLINK_VOLUME = ''BEOLINK_VOLUME''"

text \<open>A command tuple is kept as its command names (\<^verbatim>\<open>command_list[:-1]\<close>) and its
  parameter type (\<^verbatim>\<open>command_list[-1]\<close>). A command is a string, so
  \<^verbatim>\<open>command in command_list\<close> can only hit one of the names.\<close>

type_synonym command_list = "string list \<times> parameter_type"

definition FLOAT_PARAMETERS :: command_list where
  "FLOAT_PARAMETERS = ([''set_volume_level'', ''media_seek''], float_type)"

definition BOOL_PARAMETERS :: command_list where
  "BOOL_PARAMETERS = ([''mute_volume''], bool_type)"

definition STR_PARAMETERS :: command_list where
  "STR_PARAMETERS = ([''select_source''], str_type)"

definition NONE_PARAMETERS :: command_list where
  "NONE_PARAMETERS =
     ([''volume_up'', ''volume_down'', ''media_play_pause'', ''media_pause'', ''media_play'',
       ''media_stop'', ''media_next_track'', ''media_previous_track'', ''toggle''], none_type)"

definition ACCEPTED_COMMANDS :: "string list" where
  "ACCEPTED_COMMANDS =
     fst FLOAT_PARAMETERS @ fst BOOL_PARAMETERS @ fst STR_PARAMETERS @ fst NONE_PARAMETERS"

definition ACCEPTED_COMMANDS_LISTS :: "command_list list" where
  "ACCEPTED_COMMANDS_LISTS =
     [FLOAT_PARAMETERS, BOOL_PARAMETERS, STR_PARAMETERS, NONE_PARAMETERS]"

section \<open>media\_player.py: the entity and what it does to the outside\<close>

record art =
  art_key :: "string option"
  art_size :: "string option"
  art_url :: "string option"
  art_has_local_image :: "bool option"

text \<open>\<^verbatim>\<open>Art()\<close>: every field \<^verbatim>\<open>None\<close>.\<close>

definition Art :: art where
  "Art = \<lparr>art_key = None, art_size = None, art_url = None, art_has_local_image = None\<rparr>"

record beolink_leader =
  leader_friendly_name :: string
  leader_jid :: string

record beolink_listener =
  listener_jid :: string

text \<open>\<open>md_art\<close> is \<open>None\<close> when \<^verbatim>\<open>metadata.art\<close> is not a list.\<close>

record playback_content_metadata =
  md_art :: "art list option"
  md_title :: "string option"

record volume_state =
  vol_level :: int
  vol_muted :: bool

text \<open>The fields of \<^verbatim>\<open>BangOlufsenMediaPlayer\<close> that the functions below read or write
  (\<open>mp_x\<close> is \<^verbatim>\<open>self._x\<close>). \<open>mp_playback_metadata\<close> is \<open>None\<close> when the attribute is
  not a \<^verbatim>\<open>PlaybackContentMetadata\<close>.\<close>

record media_player =
  mp_beolink_jid :: string
  mp_max_volume :: int
  mp_volume_step :: int
  mp_state :: string
  mp_media_image :: art
  mp_source_list :: "string list"
  mp_source_list_friendly :: "string list"
  mp_beolink_listeners :: "beolink_listener list"
  mp_remote_leader :: "beolink_leader option"
  mp_playback_metadata :: "playback_content_metadata option"
  mp_volume :: volume_state

text \<open>What a method does to the outside, in order: requests to the vendor client (all
  sent with \<^verbatim>\<open>async_req=True\<close>, so the caller never sees their outcome), signals on the
  host's dispatcher, calls of a method looked up by name with \<^verbatim>\<open>getattr\<close>, and log
  lines (by their format string).\<close>

datatype client_request =
    set_current_volume_level int
  | set_active_source string
  | post_uri_source string
  | activate_preset string
  | start_deezer_flow "string option"
  | add_to_queue string int string
  | get_available_sources

datatype 'f effect =
    Request client_request
  | DispatcherSend string "'f py_value list"
  | MethodCall string "'f py_value list"
  | LogError string
  | LogWarning string

text \<open>A method returns the entity as it leaves it, its effects, and the exception it
  ends with, if any.\<close>

type_synonym 'f outcome = "media_player \<times> 'f effect list \<times> py_exception option"

subsection \<open>The state property\<close>

text \<open>\<^verbatim>\<open>_update_playback_state\<close> copies the value of the notification into \<^verbatim>\<open>_state\<close>; it is
  the only assignment to \<^verbatim>\<open>_state\<close> after \<^verbatim>\<open>__init__\<close>. The \<^verbatim>\<open>state\<close> property is
  \<^verbatim>\<open>StateEnum[self._state]\<close>, a KeyError when no member has that name.\<close>

definition update_playback_state :: "media_player \<Rightarrow> string \<Rightarrow> media_player" where
  "update_playback_state e data_value = e\<lparr>mp_state := data_value\<rparr>"

definition state :: "media_player \<Rightarrow> py_exception + MediaPlayerState" where
  "state e =
     (case map_of StateEnum (mp_state e) of
        None \<Rightarrow> Inl KeyError
      | Some s \<Rightarrow> Inr s)"

subsection \<open>Volume\<close>

definition async_volume_up :: "media_player \<Rightarrow> 'f outcome" where
  "async_volume_up e =
     (let new_volume = min (vol_level (mp_volume e) + mp_volume_step e) (mp_max_volume e)
      in (e, [Request (set_current_volume_level new_volume)], None))"

definition async_volume_down :: "media_player \<Rightarrow> 'f outcome" where
  "async_volume_down e =
     (let new_volume = max (vol_level (mp_volume e) - mp_volume_step e) 0
      in (e, [Request (set_current_volume_level new_volume)], None))"

definition async_set_volume_level :: "'f py_builtins \<Rightarrow> media_player \<Rightarrow> 'f \<Rightarrow> 'f outcome" where
  "async_set_volume_level B e volume =
     (case int_of_float_times B volume 100 of
        Inl ex \<Rightarrow> (e, [], Some ex)
      | Inr level \<Rightarrow> (e, [Request (set_current_volume_level level)], None))"

subsection \<open>Sources and media\<close>

definition async_select_source :: "media_player \<Rightarrow> string \<Rightarrow> 'f outcome" where
  "async_select_source e source =
     (if source \<in> set (mp_source_list_friendly e) then
        (case py_index (mp_source_list_friendly e) source of
           Inl ex \<Rightarrow> (e, [], Some ex)
         | Inr index \<Rightarrow>
             (case py_getitem (mp_source_list e) index of
                Inl ex \<Rightarrow> (e, [], Some ex)
              | Inr source_id \<Rightarrow> (e, [Request (set_active_source source_id)], None)))
      else (e, [LogError ''Invalid source: %s. Valid sources are: %s''], None))"

text \<open>What \<^verbatim>\<open>async_play_media\<close> takes from the host: the values of three
  \<^verbatim>\<open>MediaType\<close> members, the test for a media-source id, the resolver of such an id
  (the resolved URL, or the exception it raises) and the URL post-processing.\<close>

record media_host =
  MediaType_MUSIC :: string
  MediaType_URL :: string
  MediaType_CHANNEL :: string
  is_media_source_id :: "string \<Rightarrow> bool"
  async_resolve_media :: "string \<Rightarrow> py_exception + string"
  async_process_play_media_url :: "string \<Rightarrow> string"

definition VALID_MEDIA_TYPES :: "media_host \<Rightarrow> string list" where
  "VALID_MEDIA_TYPES H =
     [BangOlufsenMediaType_FAVOURITE, BangOlufsenMediaType_DEEZER,
      BangOlufsenMediaType_RADIO, BangOlufsenMediaType_TTS,
      MediaType_MUSIC H, MediaType_URL H, MediaType_CHANNEL H]"

definition py_endswith :: "string \<Rightarrow> string \<Rightarrow> bool" where
  "py_endswith s suffix =
     (length suffix \<le> length s \<and> drop (length s - length suffix) s = suffix)"

text \<open>\<^verbatim>\<open>s.replace(old, "")\<close> for a non-empty \<open>old\<close>: every occurrence, left to right.\<close>

fun py_remove :: "string \<Rightarrow> string \<Rightarrow> string" where
  "py_remove old [] = []"
| "py_remove old (c # cs) =
     (if old \<noteq> [] \<and> take (length old) (c # cs) = old
      then py_remove old (drop (length old - 1) cs)
      else c # py_remove old cs)"

text \<open>\<^verbatim>\<open>kwargs[ATTR_MEDIA_EXTRA]\<close>: the extra dict with its two optional keys; the
  argument is \<open>None\<close> when \<^verbatim>\<open>kwargs\<close> has no such entry (KeyError on reading it).\<close>

record media_extra =
  extra_id :: "string option"
  extra_start_from :: "int option"

definition async_play_media ::
  "media_host \<Rightarrow> media_player \<Rightarrow> string \<Rightarrow> string \<Rightarrow> media_extra option \<Rightarrow> 'f outcome" where
  "async_play_media H e media_type0 media_id0 kwargs =
     (case (if is_media_source_id H media_id0 then
              (case async_resolve_media H media_id0 of
                 Inl ex \<Rightarrow> Inl ex
               | Inr url \<Rightarrow>
                   (let m = async_process_play_media_url H url in
                    Inr (MediaType_URL H,
                         if py_endswith m ''.m3u'' then py_remove ''.m3u'' m else m)))
            else Inr (media_type0, media_id0)) of
        Inl ex \<Rightarrow> (e, [], Some ex)
      | Inr (media_type, media_id) \<Rightarrow>
          if media_type \<notin> set (VALID_MEDIA_TYPES H) then
            (e, [LogError ''%s is an invalid type. Valid values are: %s''], None)
          else if media_type = MediaType_URL H then
            (e, [Request (post_uri_source media_id)], None)
          else if media_type = BangOlufsenMediaType_FAVOURITE then
            (e, [Request (activate_preset media_id)], None)
          else if media_type = BangOlufsenMediaType_DEEZER then
            (if media_id = ''flow'' then
               (case kwargs of
                  None \<Rightarrow> (e, [], Some KeyError)
                | Some extra \<Rightarrow> (e, [Request (start_deezer_flow (extra_id extra))], None))
             else if py_in_str ''playlist'' media_id \<or> py_in_str ''album'' media_id then
               (case kwargs of
                  None \<Rightarrow> (e, [], Some KeyError)
                | Some extra \<Rightarrow>
                    (e, [Request (add_to_queue ''playlist''
                           (case extra_start_from extra of None \<Rightarrow> 0 | Some n \<Rightarrow> n)
                           media_id)], None))
             else (e, [Request (add_to_queue ''track'' 0 media_id)], None))
          else (e, [], None))"

subsection \<open>Initialisation: the source lists\<close>



subsection \<open>Artwork\<close>

text \<open>The loop of \<^verbatim>\<open>_update_artwork\<close>. \<open>first\<close> is \<^verbatim>\<open>metadata.art[0]\<close>, which both tests
  read on every round; \<open>int_of_str\<close> is Python's \<^verbatim>\<open>int\<close> on a string (\<open>None\<close> is
  ValueError). \<^verbatim>\<open>image.key.split\<close> on a key that is \<^verbatim>\<open>None\<close> is an AttributeError,
  \<^verbatim>\<open>ArtSizeEnum[image.size]\<close> on a name that is no member a KeyError.\<close>

fun artwork_images ::
  "(string \<Rightarrow> int option) \<Rightarrow> art \<Rightarrow> art list \<Rightarrow> int list \<Rightarrow> py_exception + int list" where
  "artwork_images int_of_str first [] images = Inr images"
| "artwork_images int_of_str first (img # rest) images =
     (if art_key first \<noteq> None then
        (case art_key img of
           None \<Rightarrow> Inl AttributeError
         | Some k \<Rightarrow>
             (case py_getitem (py_split (CHR ''x'') k) 0 of
                Inl ex \<Rightarrow> Inl ex
              | Inr w \<Rightarrow>
                  (case int_of_str w of
                     None \<Rightarrow> Inl ValueError
                   | Some n \<Rightarrow> artwork_images int_of_str first rest (images @ [n]))))
      else if art_size first \<noteq> None then
        (case art_size img of
           None \<Rightarrow> Inl KeyError
         | Some s \<Rightarrow>
             (case map_of ArtSizeEnum s of
                None \<Rightarrow> Inl KeyError
              | Some v \<Rightarrow> artwork_images int_of_str first rest (images @ [v])))
      else artwork_images int_of_str first rest images)"

definition update_artwork ::
  "(string \<Rightarrow> int option) \<Rightarrow> media_player \<Rightarrow> media_player \<times> py_exception option" where
  "update_artwork int_of_str e =
     (case mp_playback_metadata e of
        None \<Rightarrow> (e\<lparr>mp_media_image := Art\<rparr>, None)
      | Some metadata \<Rightarrow>
          (case md_art metadata of
             None \<Rightarrow> (e\<lparr>mp_media_image := Art\<rparr>, None)
           | Some arts \<Rightarrow>
               if length arts > 0 then
                 (case artwork_images int_of_str (hd arts) arts [] of
                    Inl ex \<Rightarrow> (e, Some ex)
                  | Inr images \<Rightarrow>
                      (case py_max images of
                         Inl ex \<Rightarrow> (e, Some ex)
                       | Inr m \<Rightarrow>
                           (case py_index images m of
                              Inl ex \<Rightarrow> (e, Some ex)
                            | Inr i \<Rightarrow>
                                (case py_getitem arts i of
                                   Inl ex \<Rightarrow> (e, Some ex)
                                 | Inr img \<Rightarrow> (e\<lparr>mp_media_image := img\<rparr>, None)))))
               else (e\<lparr>mp_media_image := Art\<rparr>, None)))"

subsection \<open>Looking an entity up by JID\<close>

text \<open>\<open>registry\<close> is the host's \<^verbatim>\<open>async_get_entity_id\<close> for this platform and domain.\<close>

definition get_entity_id_from_jid ::
  "(string \<Rightarrow> string option) \<Rightarrow> string \<Rightarrow> py_exception + string option" where
  "get_entity_id_from_jid registry jid =
     (case jid_serial_number jid of
        Inl ex \<Rightarrow> Inl ex
      | Inr unique_id \<Rightarrow> Inr (registry unique_id))"

subsection \<open>Beolink commands\<close>

text \<open>Both command methods loop over \<^verbatim>\<open>ACCEPTED_COMMANDS_LISTS\<close>; they return their
  effects and the exception they end with, if any, and assign no field of the entity.\<close>

type_synonym 'f relay = "'f effect list \<times> py_exception option"

definition emit :: "'f effect \<Rightarrow> 'f relay \<Rightarrow> 'f relay" where
  "emit x r = (x # fst r, snd r)"

fun beolink_listener_loop ::
  "'f py_builtins \<Rightarrow> string \<Rightarrow> 'f py_value \<Rightarrow> command_list list \<Rightarrow> 'f relay" where
  "beolink_listener_loop B command parameter [] = ([], None)"
| "beolink_listener_loop B command parameter (command_list # rest) =
     (if command \<in> set (fst command_list) then
        (if parameter \<noteq> PNone then
           (case call_type B (snd command_list) parameter of
              Inl ex \<Rightarrow> ([], Some ex)
            | Inr arg \<Rightarrow>
                emit (MethodCall (''async_'' @ command) [arg])
                  (beolink_listener_loop B command parameter rest))
         else if snd command_list = none_type then
           emit (MethodCall (''async_'' @ command) [])
             (beolink_listener_loop B command parameter rest)
         else beolink_listener_loop B command parameter rest)
      else beolink_listener_loop B command parameter rest)"

definition async_beolink_listener_command ::
  "'f py_builtins \<Rightarrow> media_player \<Rightarrow> string \<Rightarrow> 'f py_value \<Rightarrow> 'f relay" where
  "async_beolink_listener_command B e command parameter =
     beolink_listener_loop B command parameter ACCEPTED_COMMANDS_LISTS"

text \<open>The parameter check of \<^verbatim>\<open>async_beolink_leader_command\<close>: \<open>Inl\<close> is the early
  return (or an exception the \<^verbatim>\<open>except\<close> clause does not catch), \<open>Inr\<close> the parameter
  after the assignment \<^verbatim>\<open>parameter = parameter_type(parameter)\<close>.\<close>

definition leader_check_parameter ::
  "'f py_builtins \<Rightarrow> parameter_type \<Rightarrow> 'f py_value \<Rightarrow> 'f relay + 'f py_value" where
  "leader_check_parameter B parameter_type parameter =
     (if parameter_type \<noteq> none_type then
        (case call_type B parameter_type parameter of
           Inl ex \<Rightarrow>
             if isinstance ex ''ValueError'' \<or> isinstance ex ''TypeError''
             then Inl ([LogError ''Invalid parameter''], None)
             else Inl ([], Some ex)
         | Inr converted \<Rightarrow> Inr converted)
      else if parameter \<noteq> PNone then Inl ([LogError ''Invalid parameter''], None)
      else Inr parameter)"

fun beolink_leader_loop ::
  "'f py_builtins \<Rightarrow> media_player \<Rightarrow> string \<Rightarrow> 'f py_value \<Rightarrow> command_list list \<Rightarrow> 'f relay" where
  "beolink_leader_loop B e command parameter [] = ([], None)"
| "beolink_leader_loop B e command parameter (command_list # rest) =
     (if command \<in> set (fst command_list) then
        (case leader_check_parameter B (snd command_list) parameter of
           Inl stop \<Rightarrow> stop
         | Inr parameter1 \<Rightarrow>
             (case mp_remote_leader e of
                Some leader \<Rightarrow>
                  emit (DispatcherSend (leader_jid leader @ ''_'' @ BEOLINK_LEADER_COMMAND)
                          [PStr command, parameter1])
                    (beolink_leader_loop B e command parameter1 rest)
              | None \<Rightarrow>
                  if parameter1 \<noteq> PNone then
                    (case call_type B (snd command_list) parameter1 of
                       Inl ex \<Rightarrow> ([], Some ex)
                     | Inr arg \<Rightarrow>
                         emit (MethodCall (''async_'' @ command) [arg])
                           (beolink_leader_loop B e command parameter1 rest))
                  else if snd command_list = none_type then
                    emit (MethodCall (''async_'' @ command) [])
                      (beolink_leader_loop B e command parameter1 rest)
                  else beolink_leader_loop B e command parameter1 rest))
      else beolink_leader_loop B e command parameter rest)"

definition async_beolink_leader_command ::
  "'f py_builtins \<Rightarrow> media_player \<Rightarrow> string \<Rightarrow> 'f py_value \<Rightarrow> 'f relay" where
  "async_beolink_leader_command B e command parameter =
     beolink_leader_loop B e command parameter ACCEPTED_COMMANDS_LISTS"

definition async_beolink_set_volume ::
  "'f py_builtins \<Rightarrow> media_player \<Rightarrow> string \<Rightarrow> 'f relay" where
  "async_beolink_set_volume B e volume_level =
     (case mp_remote_leader e of
        Some leader \<Rightarrow>
          ([DispatcherSend (leader_jid leader @ ''_'' @ BEOLINK_VOLUME) [PStr volume_level]],
           None)
      | None \<Rightarrow>
          (case py_float B (PStr volume_level) of
             Inl ex \<Rightarrow> ([], Some ex)
           | Inr volume \<Rightarrow>
               (case async_set_volume_level B e volume of
                  (e1, effects, Some ex) \<Rightarrow> (effects, Some ex)
                | (e1, effects, None) \<Rightarrow>
                    (effects @
                     map (\<lambda>beolink_listener.
                            DispatcherSend
                              (listener_jid beolink_listener @ ''_'' @ BEOLINK_LISTENER_COMMAND)
                              [PStr ''set_volume_level'', PStr volume_level])
                         (mp_beolink_listeners e1),
                     None))))"

section \<open>event.py: setting up the event platform\<close>

text \<open>The constants \<^verbatim>\<open>event.py\<close> imports from its package's \<^verbatim>\<open>const\<close> module are taken
  as parameters; \<open>PROXIMITY_SENSOR\<close> is \<^verbatim>\<open>BangOlufsenModelSupport.PROXIMITY_SENSOR.value\<close>.\<close>

record event_constants =
  DEVICE_BUTTONS :: "string list"
  PROXIMITY_SENSOR :: "string list"
  BEO_REMOTE_KEYS :: "string list"
  BEO_REMOTE_LIGHT_KEYS :: "string list"
  BEO_REMOTE_CONTROL_KEYS :: "string list"
  BEO_REMOTE_SUBMENU_LIGHT :: string
  BEO_REMOTE_SUBMENU_CONTROL :: string

record paired_remote =
  remote_serial_number :: "string option"
  remote_app_version :: "string option"

datatype event_entity =
    BangOlufsenButtonEvent string
  | BangOlufsenEventProximity
  | BangOlufsenRemoteKeyEvent paired_remote string

definition AssertionError :: py_exception where
  "AssertionError = PyExc ''AssertionError'' [''Exception'']"

text \<open>\<open>added\<close> is the list handed to \<^verbatim>\<open>async_add_entities\<close> (empty when the call is never
  reached), \<open>device\<close> the serial number of the remote registered as a device.\<close>

record event_setup =
  added :: "event_entity list"
  device :: "string option"
  raised :: "py_exception option"

definition event_async_setup_entry ::
  "event_constants \<Rightarrow> string \<Rightarrow> string option \<Rightarrow> py_exception + paired_remote list
     \<Rightarrow> event_setup" where
  "event_async_setup_entry C model unique_id bluetooth_remote_list =
     (let entities0 = map BangOlufsenButtonEvent (DEVICE_BUTTONS C);
          entities1 = (if model \<in> set (PROXIMITY_SENSOR C)
                       then entities0 @ [BangOlufsenEventProximity] else entities0)
      in case bluetooth_remote_list of
           Inl ex \<Rightarrow> \<lparr>added = [], device = None, raised = Some ex\<rparr>
         | Inr items \<Rightarrow>
             if length items \<noteq> 0 then
               (let remote = hd items in
                case remote_serial_number remote of
                  None \<Rightarrow> \<lparr>added = [], device = None, raised = Some AssertionError\<rparr>
                | Some serial \<Rightarrow>
                    if serial = [] \<or> unique_id = None \<or> unique_id = Some []
                    then \<lparr>added = [], device = None, raised = Some AssertionError\<rparr>
                    else
                      \<lparr>added = entities1
                         @ map (\<lambda>key_type. BangOlufsenRemoteKeyEvent remote
                                  (BEO_REMOTE_SUBMENU_LIGHT C @ ''/'' @ key_type))
                             (BEO_REMOTE_KEYS C @ BEO_REMOTE_LIGHT_KEYS C)
                         @ map (\<lambda>key_type. BangOlufsenRemoteKeyEvent remote
                                  (BEO_REMOTE_SUBMENU_CONTROL C @ ''/'' @ key_type))
                             (BEO_REMOTE_KEYS C @ BEO_REMOTE_CONTROL_KEYS C),
                       device = Some serial, raised = None\<rparr>)
             else \<lparr>added = entities1, device = None, raised = None\<rparr>)"

section \<open>Concrete builtins for evaluation\<close>

text \<open>Python's \<^verbatim>\<open>int\<close> on a string of decimal digits.\<close>

definition digit_value :: "char \<Rightarrow> int option" where
  "digit_value c =
     map_of [(CHR ''0'', 0), (CHR ''1'', 1), (CHR ''2'', 2), (CHR ''3'', 3), (CHR ''4'', 4),
             (CHR ''5'', 5), (CHR ''6'', 6), (CHR ''7'', 7), (CHR ''8'', 8), (CHR ''9'', 9)] c"

fun decimal_digits :: "int \<Rightarrow> string \<Rightarrow> int option" where
  "decimal_digits n [] = Some n"
| "decimal_digits n (c # cs) =
     (case digit_value c of None \<Rightarrow> None | Some d \<Rightarrow> decimal_digits (10 * n + d) cs)"

definition decimal_int :: "string \<Rightarrow> int option" where
  "decimal_int s = (if s = [] then None else decimal_digits 0 s)"

text \<open>Floats restricted to whole numbers, written in decimal digits: enough to run the
  volume commands on inputs such as \<^verbatim>\<open>"1"\<close>.\<close>

definition whole_floats :: "int py_builtins" where
  "whole_floats =
     \<lparr>float_of_str = decimal_int,
      float_of_bool = (\<lambda>b. if b then 1 else 0),
      float_is_zero = (\<lambda>f. f = 0),
      str_of_float = (\<lambda>f. ''float''),
      int_of_float_times = (\<lambda>f k. Inr (f * k))\<rparr>"

text \<open>The entity as \<^verbatim>\<open>__init__\<close> leaves it, for a config entry with the given JID, maximum
  volume and volume step.\<close>

definition BangOlufsenMediaPlayer :: "string \<Rightarrow> int \<Rightarrow> int \<Rightarrow> media_player" where
  "BangOlufsenMediaPlayer jid max_volume volume_step =
     \<lparr>mp_beolink_jid = jid,
      mp_max_volume = max_volume,
      mp_volume_step = volume_step,
      mp_state = ''idle'',
      mp_media_image = Art,
      mp_source_list = [],
      mp_source_list_friendly = [],
      mp_beolink_listeners = [],
      mp_remote_leader = None,
      mp_playback_metadata = Some \<lparr>md_art = None, md_title = None\<rparr>,
      mp_volume = \<lparr>vol_level = 0, vol_muted = False\<rparr>\<rparr>"

section \<open>Concrete inputs for evaluation\<close>

text \<open>A host that accepts every address and knows no unique id; the flow handler with
  its class attributes; a device that answers both requests.\<close>

definition open_host :: config_host where
  "open_host =
     \<lparr>ip_address_valid = (\<lambda>h. True),
      unique_id_in_progress = (\<lambda>u. False),
      unique_id_configured = (\<lambda>u. False)\<rparr>"

definition BangOlufsenConfigFlowHandler :: config_flow where
  "BangOlufsenConfigFlowHandler =
     \<lparr>cf_beolink_jid = [], cf_host = [], cf_model = [], cf_name = [],
      cf_serial_number = [], cf_unique_id = None\<rparr>"

definition balance_device :: flow_client where
  "balance_device =
     \<lparr>get_beolink_self =
        Inr \<lparr>bs_friendly_name = ''Living room'',
             bs_jid = ''1200.1234567.12345678@products.bang-olufsen.com''\<rparr>,
      get_volume_settings =
        Inr \<lparr>vs_default = Some \<lparr>vl_level = Some 30\<rparr>,
             vs_maximum = Some \<lparr>vl_level = Some 70\<rparr>\<rparr>\<rparr>"

definition balance_input :: UserInput where
  "balance_input =
     UserInput_empty\<lparr>ui_host := Some ''192.168.1.20'', ui_model := Some ''Beosound Balance''\<rparr>"

definition balance_discovery :: zeroconf_info where
  "balance_discovery =
     \<lparr>zc_host = ''192.168.1.20'',
      zc_hostname = ''Beosound-Balance-12345678.local.'',
      zc_properties = map_of
        [(''fn'', ''Living room''), (''sn'', ''12345678''), (''tn'', ''1200''),
         (''in'', ''1234567'')]\<rparr>"

definition balance_entry :: config_entry where
  "balance_entry =
     \<lparr>ce_title = ''Beosound Balance-12345678'', ce_host = ''192.168.1.20'',
      ce_model = ''Beosound Balance'',
      ce_jid = ''1200.1234567.12345678@products.bang-olufsen.com''\<rparr>"

text \<open>Constants for the event platform: the proximity tuple of \<^verbatim>\<open>const.py\<close>, two device
  buttons, and no remote keys.\<close>

definition sample_event_constants :: event_constants where
  "sample_event_constants =
     \<lparr>DEVICE_BUTTONS = [''PlayPause'', ''Volume''],
      PROXIMITY_SENSOR = SupportEnum_PROXIMITY_SENSOR,
      BEO_REMOTE_KEYS = [],
      BEO_REMOTE_LIGHT_KEYS = [],
      BEO_REMOTE_CONTROL_KEYS = [],
      BEO_REMOTE_SUBMENU_LIGHT = ''Light'',
      BEO_REMOTE_SUBMENU_CONTROL = ''Control''\<rparr>"

text \<open>A device that does not answer: both requests end in a \<^verbatim>\<open>TimeoutError\<close>.\<close>

definition silent_device :: flow_client where
  "silent_device =
     \<lparr>get_beolink_self = Inl (PyExc ''TimeoutError'' [''OSError'', ''Exception'']),
      get_volume_settings = Inl (PyExc ''TimeoutError'' [''OSError'', ''Exception''])\<rparr>"

text \<open>A host for \<^verbatim>\<open>async_play_media\<close>: the three \<^verbatim>\<open>MediaType\<close> values, ids that start
  with \<^verbatim>\<open>media-source://\<close> as media-source ids, a resolver that answers with one local
  path, and URL processing that puts the host's address in front.\<close>

definition sample_media_host :: media_host where
  "sample_media_host =
     \<lparr>MediaType_MUSIC = ''music'',
      MediaType_URL = ''url'',
      MediaType_CHANNEL = ''channel'',
      is_media_source_id = (\<lambda>s. take 15 s = ''media-source://''),
      async_resolve_media = (\<lambda>s. Inr ''/media/local/bell.mp3''),
      async_process_play_media_url = (\<lambda>u. ''http://192.168.1.2:8123'' @ u)\<rparr>"

text \<open>The two numbers an artwork entry can be ranked by: the width that its
  \<^verbatim>\<open>"WxH"\<close> key starts with, and the rank of its size in \<^verbatim>\<open>ArtSizeEnum\<close>. Each is
  \<open>None\<close> when the entry has no such number.\<close>

definition art_width :: "(string \<Rightarrow> int option) \<Rightarrow> art \<Rightarrow> int option" where
  "art_width int_of_str a =
     (case art_key a of
        None \<Rightarrow> None
      | Some k \<Rightarrow> int_of_str (hd (py_split (CHR ''x'') k)))"

definition art_rank :: "art \<Rightarrow> int option" where
  "art_rank a =
     (case art_size a of
        None \<Rightarrow> None
      | Some s \<Rightarrow> map_of ArtSizeEnum s)"

text \<open>An entity that shows an old image while its metadata lists two artworks, the
  first with a key, the second with a size.\<close>

definition mixed_art_player :: media_player where
  "mixed_art_player =
     (BangOlufsenMediaPlayer ''j'' 100 5)
       \<lparr>mp_media_image :=
          \<lparr>art_key = None, art_size = Some ''small'', art_url = Some ''http://old'',
           art_has_local_image = None\<rparr>,
        mp_playback_metadata :=
          Some \<lparr>md_art = Some
                  [\<lparr>art_key = Some ''640x640'', art_size = None, art_url = Some ''http://a'',
                    art_has_local_image = None\<rparr>,
                   \<lparr>art_key = None, art_size = Some ''large'', art_url = Some ''http://b'',
                    art_has_local_image = None\<rparr>],
                md_title = None\<rparr>\<rparr>"

definition keyed_art_player :: media_player where
  "keyed_art_player =
     (BangOlufsenMediaPlayer ''j'' 100 5)
       \<lparr>mp_playback_metadata :=
          Some \<lparr>md_art = Some
                  [\<lparr>art_key = Some ''128x128'', art_size = None, art_url = Some ''http://a'',
                    art_has_local_image = None\<rparr>,
                   \<lparr>art_key = Some ''640x640'', art_size = None, art_url = Some ''http://b'',
                    art_has_local_image = None\<rparr>,
                   \<lparr>art_key = Some ''320x320'', art_size = None, art_url = Some ''http://c'',
                    art_has_local_image = None\<rparr>],
                md_title = None\<rparr>\<rparr>"

text \<open>Two devices whose requests end in an instance of a subclass: the vendor client's
  \<^verbatim>\<open>NotFoundException\<close>, a subclass of \<^verbatim>\<open>ApiException\<close> (the answer to an HTTP 404), and
  the HTTP library's \<^verbatim>\<open>ServerTimeoutError\<close>, a subclass of \<^verbatim>\<open>TimeoutError\<close>.\<close>

definition NotFoundException :: py_exception where
  "NotFoundException = PyExc ''NotFoundException'' [''ApiException'', ''OpenApiException'', ''Exception'']"

definition ServerTimeoutError :: py_exception where
  "ServerTimeoutError =
     PyExc ''ServerTimeoutError''
       [''ServerConnectionError'', ''ClientConnectionError'', ''ClientError'', ''TimeoutError'',
        ''OSError'', ''Exception'']"

definition not_found_device :: flow_client where
  "not_found_device =
     \<lparr>get_beolink_self = Inl NotFoundException, get_volume_settings = Inl NotFoundException\<rparr>"

definition stalled_device :: flow_client where
  "stalled_device =
     \<lparr>get_beolink_self = Inl ServerTimeoutError, get_volume_settings = Inl ServerTimeoutError\<rparr>"

text \<open>A leader whose listeners list names one JID twice, and one with a single listener.\<close>

definition repeated_listener_player :: media_player where
  "repeated_listener_player =
     (BangOlufsenMediaPlayer ''1.1.1@products.bang-olufsen.com'' 100 5)
       \<lparr>mp_beolink_listeners := [\<lparr>listener_jid = ''1.1.2@products.bang-olufsen.com''\<rparr>,
                                 \<lparr>listener_jid = ''1.1.2@products.bang-olufsen.com''\<rparr>]\<rparr>"

definition single_listener_player :: media_player where
  "single_listener_player =
     (BangOlufsenMediaPlayer ''1.1.1@products.bang-olufsen.com'' 100 5)
       \<lparr>mp_beolink_listeners := [\<lparr>listener_jid = ''1.1.2@products.bang-olufsen.com''\<rparr>]\<rparr>"

section \<open>Splitting strings\<close>

lemma py_split_no_sep: "c \<notin> set s \<Longrightarrow> py_split c s = [s]"
  by (induction s) auto

lemma py_split_append:
  "c \<notin> set a \<Longrightarrow> py_split c (a @ c # rest) = a # py_split c rest"
  by (induction a) (auto split: list.splits)

lemma py_split_nonempty: "py_split c s \<noteq> []"
  by (induction s) (auto split: list.splits)

lemma jid_serial_number_zeroconf:
  assumes "CHR ''.'' \<notin> set tn" "CHR ''.'' \<notin> set itn"
    and "CHR ''.'' \<notin> set sn" "CHR ''@'' \<notin> set sn"
  shows "jid_serial_number (zeroconf_beolink_jid tn itn sn) = Inr sn"
proof -
  have dot: "CHR ''.'' \<notin> set (sn @ ''@products'')" using assms(3) by simp
  have "py_split (CHR ''.'') (zeroconf_beolink_jid tn itn sn)
        = tn # itn # (sn @ ''@products'') # py_split (CHR ''.'') ''bang-olufsen.com''"
    using py_split_append[OF assms(1), of "itn @ ''.'' @ sn @ ''@products.bang-olufsen.com''"]
          py_split_append[OF assms(2), of "sn @ ''@products.bang-olufsen.com''"]
          py_split_append[OF dot, of "''bang-olufsen.com''"]
    by (simp add: zeroconf_beolink_jid_def)
  then have third: "py_getitem (py_split (CHR ''.'') (zeroconf_beolink_jid tn itn sn)) 2
        = Inr (sn @ ''@products'')"
    by (simp add: py_getitem_def)
  have "py_split (CHR ''@'') (sn @ ''@products'') = sn # py_split (CHR ''@'') ''products''"
    using py_split_append[OF assms(4), of "''products''"] by simp
  then have "py_getitem (py_split (CHR ''@'') (sn @ ''@products'')) 0 = Inr sn"
    by (simp add: py_getitem_def)
  with third show ?thesis by (simp add: jid_serial_number_def)
qed

section \<open>C8: volume steps stay within the configured bounds\<close>

text \<open>
  Claim C8. For every current volume level, volume step and maximum,
  \<^verbatim>\<open>async_volume_up\<close> requests exactly the level \<open>min (v + s) m\<close>, which never exceeds
  the maximum, and \<^verbatim>\<open>async_volume_down\<close> requests exactly \<open>max (v - s) 0\<close>, which is
  never negative. Each sends that one request and nothing else, and returns the entity
  with every field as it was. The range 0..100 of the claim is not needed.
\<close>

theorem volume_step_requests_within_bounds:
  fixes e :: media_player
  defines "v \<equiv> vol_level (mp_volume e)"
    and "s \<equiv> mp_volume_step e"
    and "m \<equiv> mp_max_volume e"
  shows "(async_volume_up e :: 'f outcome)
           = (e, [Request (set_current_volume_level (min (v + s) m))], None)
       \<and> min (v + s) m \<le> m
       \<and> (async_volume_down e :: 'f outcome)
           = (e, [Request (set_current_volume_level (max (v - s) 0))], None)
       \<and> 0 \<le> max (v - s) 0"
  by (simp add: async_volume_up_def async_volume_down_def v_def s_def m_def)

theorem volume_step_requests_within_bounds_witness:
  "(async_volume_up ((BangOlufsenMediaPlayer ''j'' 60 5)\<lparr>mp_volume := \<lparr>vol_level = 58, vol_muted = False\<rparr>\<rparr>) :: int outcome)
     = ((BangOlufsenMediaPlayer ''j'' 60 5)\<lparr>mp_volume := \<lparr>vol_level = 58, vol_muted = False\<rparr>\<rparr>,
        [Request (set_current_volume_level 60)], None)
   \<and> (async_volume_down ((BangOlufsenMediaPlayer ''j'' 60 5)\<lparr>mp_volume := \<lparr>vol_level = 3, vol_muted = False\<rparr>\<rparr>) :: int outcome)
     = ((BangOlufsenMediaPlayer ''j'' 60 5)\<lparr>mp_volume := \<lparr>vol_level = 3, vol_muted = False\<rparr>\<rparr>,
        [Request (set_current_volume_level 0)], None)"
  using volume_step_requests_within_bounds
          [where ?'f = int and e = "(BangOlufsenMediaPlayer ''j'' 60 5)\<lparr>mp_volume := \<lparr>vol_level = 58, vol_muted = False\<rparr>\<rparr>"]
        volume_step_requests_within_bounds
          [where ?'f = int and e = "(BangOlufsenMediaPlayer ''j'' 60 5)\<lparr>mp_volume := \<lparr>vol_level = 3, vol_muted = False\<rparr>\<rparr>"]
  by (simp add: BangOlufsenMediaPlayer_def)

section \<open>C9: the serial number survives the JID\<close>

text \<open>
  Claim C9. For every type number and item number without a dot and every serial number
  without a dot or an at sign, the JID that \<^verbatim>\<open>async_step_zeroconf\<close> builds
  (\<^verbatim>\<open>tn.in.sn@products.bang-olufsen.com\<close>) gives the serial number back under
  \<^verbatim>\<open>jid.split(".")[2].split("@")[0]\<close>. The zeroconf step stores exactly that JID and that
  serial number whenever the discovery carries the four properties; the user step
  applies the extraction to the JID the device reports, and \<^verbatim>\<open>_get_entity_id_from_jid\<close>
  looks the extracted serial number up in the registry.
\<close>

theorem serial_number_round_trip:
  assumes "CHR ''.'' \<notin> set tn" and "CHR ''.'' \<notin> set itn"
    and "CHR ''.'' \<notin> set sn" and "CHR ''@'' \<notin> set sn"
  shows "jid_serial_number (zeroconf_beolink_jid tn itn sn) = Inr sn
       \<and> get_entity_id_from_jid registry (zeroconf_beolink_jid tn itn sn) = Inr (registry sn)
       \<and> (zc_properties d ATTR_FRIENDLY_NAME \<noteq> None \<longrightarrow>
          zc_properties d ATTR_SERIAL_NUMBER = Some sn \<longrightarrow>
          zc_properties d ATTR_TYPE_NUMBER = Some tn \<longrightarrow>
          zc_properties d ATTR_ITEM_NUMBER = Some itn \<longrightarrow>
            cf_beolink_jid (fst (async_step_zeroconf H client flow d))
              = zeroconf_beolink_jid tn itn sn
          \<and> cf_serial_number (fst (async_step_zeroconf H client flow d)) = sn)
       \<and> (ui_host ui = Some h \<longrightarrow> ui_model ui = Some m \<longrightarrow> ip_address_valid H h \<longrightarrow>
          get_beolink_self client = Inr bs \<longrightarrow> bs_jid bs = zeroconf_beolink_jid tn itn sn \<longrightarrow>
            cf_serial_number (fst (async_step_user H client flow (Some ui))) = sn)"
proof -
  have rt: "jid_serial_number (zeroconf_beolink_jid tn itn sn) = Inr sn"
    using assms by (rule jid_serial_number_zeroconf)
  have reg: "get_entity_id_from_jid registry (zeroconf_beolink_jid tn itn sn) = Inr (registry sn)"
    by (simp add: get_entity_id_from_jid_def rt)
  have zc: "cf_beolink_jid (fst (async_step_zeroconf H client flow d))
              = zeroconf_beolink_jid tn itn sn
          \<and> cf_serial_number (fst (async_step_zeroconf H client flow d)) = sn"
    if "zc_properties d ATTR_FRIENDLY_NAME \<noteq> None"
      "zc_properties d ATTR_SERIAL_NUMBER = Some sn"
      "zc_properties d ATTR_TYPE_NUMBER = Some tn"
      "zc_properties d ATTR_ITEM_NUMBER = Some itn"
    using that by (auto simp add: async_step_zeroconf_def async_step_confirm_def Let_def)
  have us: "cf_serial_number (fst (async_step_user H client flow (Some ui))) = sn"
    if "ui_host ui = Some h" "ui_model ui = Some m" "ip_address_valid H h"
      "get_beolink_self client = Inr bs" "bs_jid bs = zeroconf_beolink_jid tn itn sn"
    using that rt
    by (simp add: async_step_user_def async_step_confirm_def Let_def split: prod.splits)
  from rt reg zc us show ?thesis by blast
qed

theorem serial_number_round_trip_witness:
  "jid_serial_number ''1200.1234567.12345678@products.bang-olufsen.com'' = Inr ''12345678''
   \<and> cf_beolink_jid (fst (async_step_zeroconf open_host balance_device
        BangOlufsenConfigFlowHandler balance_discovery))
       = ''1200.1234567.12345678@products.bang-olufsen.com''
   \<and> cf_serial_number (fst (async_step_user open_host balance_device
        BangOlufsenConfigFlowHandler (Some balance_input))) = ''12345678''"
  using serial_number_round_trip
    [where tn = "''1200''" and itn = "''1234567''" and sn = "''12345678''"
       and d = balance_discovery and ui = balance_input and h = "''192.168.1.20''"
       and m = "''Beosound Balance''" and H = open_host and client = balance_device
       and bs = "\<lparr>bs_friendly_name = ''Living room'',
          bs_jid = ''1200.1234567.12345678@products.bang-olufsen.com''\<rparr>"
       and flow = BangOlufsenConfigFlowHandler]
  by (simp add: zeroconf_beolink_jid_def balance_discovery_def balance_input_def
        balance_device_def open_host_def UserInput_empty_def ATTR_FRIENDLY_NAME_def
        ATTR_SERIAL_NUMBER_def ATTR_TYPE_NUMBER_def ATTR_ITEM_NUMBER_def)

section \<open>C4: the state property\<close>

text \<open>
  The claim as written counts the power state \<^verbatim>\<open>"on"\<close> among the values the mapping is
  total over. \<^verbatim>\<open>"on"\<close> is in the \<^verbatim>\<open>PLAYING\<close> tuple, but \<^verbatim>\<open>StateEnum\<close> has no member
  of that name: with \<^verbatim>\<open>_state\<close> set to it, \<^verbatim>\<open>StateEnum[self._state]\<close> is a KeyError.
\<close>

theorem state_on_counterexample:
  "BANGOLUFSEN_ON \<in> set PLAYING
   \<and> state (update_playback_state (BangOlufsenMediaPlayer ''j'' 100 5) BANGOLUFSEN_ON)
       = Inl KeyError"
  by (simp add: PLAYING_def BANGOLUFSEN_ON_def state_def StateEnum_def update_playback_state_def)

text \<open>
  Claim C4, amended. After a playback-state notification with value \<open>v\<close> the state
  property returns: playing for started and buffering; paused for paused, stopped and
  ended; idle for idle, unknown and error (and for networkStandby); the initial state
  of the entity is idle. The property returns a state exactly for these nine names;
  for every other value, \<^verbatim>\<open>"on"\<close> included, it raises KeyError.
\<close>

theorem state_mapping:
  "state (update_playback_state e ''started'') = Inr State_PLAYING
   \<and> state (update_playback_state e ''buffering'') = Inr State_PLAYING
   \<and> state (update_playback_state e ''paused'') = Inr State_PAUSED
   \<and> state (update_playback_state e ''stopped'') = Inr State_PAUSED
   \<and> state (update_playback_state e ''ended'') = Inr State_PAUSED
   \<and> state (update_playback_state e ''idle'') = Inr State_IDLE
   \<and> state (update_playback_state e ''unknown'') = Inr State_IDLE
   \<and> state (update_playback_state e ''error'') = Inr State_IDLE
   \<and> state (update_playback_state e ''networkStandby'') = Inr State_IDLE
   \<and> state (BangOlufsenMediaPlayer jid max_volume volume_step) = Inr State_IDLE
   \<and> ((\<exists>s. state (update_playback_state e v) = Inr s) =
        (v \<in> {''started'', ''buffering'', ''idle'', ''paused'', ''stopped'', ''ended'',
               ''error'', ''unknown'', ''networkStandby''}))
   \<and> ((state (update_playback_state e v) = Inl KeyError) =
        (v \<notin> {''started'', ''buffering'', ''idle'', ''paused'', ''stopped'', ''ended'',
               ''error'', ''unknown'', ''networkStandby''}))"
proof -
  have upd: "mp_state (update_playback_state e x) = x" for x
    by (simp add: update_playback_state_def)
  have keys: "fst ` set StateEnum =
      {''started'', ''buffering'', ''idle'', ''paused'', ''stopped'', ''ended'',
               ''error'', ''unknown'', ''networkStandby''}"
    unfolding StateEnum_def by (simp only: list.set image_insert image_empty fst_conv)
  have look: "map_of StateEnum v = None \<longleftrightarrow>
      v \<notin> {''started'', ''buffering'', ''idle'', ''paused'', ''stopped'', ''ended'',
               ''error'', ''unknown'', ''networkStandby''}"
    by (simp only: map_of_eq_None_iff keys)
  have tot: "(\<exists>s. state (update_playback_state e v) = Inr s) = (map_of StateEnum v \<noteq> None)"
    by (cases "map_of StateEnum v") (simp_all add: state_def upd)
  have err: "(state (update_playback_state e v) = Inl KeyError) = (map_of StateEnum v = None)"
    by (cases "map_of StateEnum v") (simp_all add: state_def upd)
  have vals: "state (update_playback_state e ''started'') = Inr State_PLAYING"
    "state (update_playback_state e ''buffering'') = Inr State_PLAYING"
    "state (update_playback_state e ''paused'') = Inr State_PAUSED"
    "state (update_playback_state e ''stopped'') = Inr State_PAUSED"
    "state (update_playback_state e ''ended'') = Inr State_PAUSED"
    "state (update_playback_state e ''idle'') = Inr State_IDLE"
    "state (update_playback_state e ''unknown'') = Inr State_IDLE"
    "state (update_playback_state e ''error'') = Inr State_IDLE"
    "state (update_playback_state e ''networkStandby'') = Inr State_IDLE"
    by (simp_all add: state_def upd StateEnum_def)
  have init: "state (BangOlufsenMediaPlayer jid max_volume volume_step) = Inr State_IDLE"
    by (simp add: state_def BangOlufsenMediaPlayer_def StateEnum_def)
  have tot': "(\<exists>s. state (update_playback_state e v) = Inr s) =
        (v \<in> {''started'', ''buffering'', ''idle'', ''paused'', ''stopped'', ''ended'',
               ''error'', ''unknown'', ''networkStandby''})"
    by (simp only: tot look not_not)
  have err': "(state (update_playback_state e v) = Inl KeyError) =
        (v \<notin> {''started'', ''buffering'', ''idle'', ''paused'', ''stopped'', ''ended'',
               ''error'', ''unknown'', ''networkStandby''})"
    by (simp only: err look)
  show ?thesis
    by (intro conjI) (rule vals init tot' err')+
qed

theorem state_mapping_witness:
  "state (update_playback_state (BangOlufsenMediaPlayer ''j'' 100 5) ''buffering'')
     = Inr State_PLAYING
   \<and> state (update_playback_state (BangOlufsenMediaPlayer ''j'' 100 5) ''ended'')
     = Inr State_PAUSED
   \<and> state (update_playback_state (BangOlufsenMediaPlayer ''j'' 100 5) ''standby'')
     = Inl KeyError"
  using state_mapping [where e = "BangOlufsenMediaPlayer ''j'' 100 5" and v = "''standby''"]
  by simp

section \<open>C7: the proximity event entity\<close>

lemma proximity_not_button: "BangOlufsenEventProximity \<notin> set (map BangOlufsenButtonEvent xs)"
  by auto

lemma proximity_not_remote_key:
  "BangOlufsenEventProximity \<notin> set (map (\<lambda>k. BangOlufsenRemoteKeyEvent r (f k)) xs)"
  by auto

lemma count_proximity_button: "count_list (map BangOlufsenButtonEvent xs) BangOlufsenEventProximity = 0"
  by (induction xs) auto

lemma count_proximity_remote_key:
  "count_list (map (\<lambda>k. BangOlufsenRemoteKeyEvent r (f k)) xs) BangOlufsenEventProximity = 0"
  by (induction xs) auto

lemma count_list_append: "count_list (xs @ ys) x = count_list xs x + count_list ys x"
  by (induction xs) auto

lemma event_setup_proximity_count:
  "raised (event_async_setup_entry C model uid remotes) = None \<Longrightarrow>
   count_list (added (event_async_setup_entry C model uid remotes)) BangOlufsenEventProximity
     = (if model \<in> set (PROXIMITY_SENSOR C) then 1 else 0)"
  by (auto simp add: event_async_setup_entry_def Let_def count_list_append
        count_proximity_button count_proximity_remote_key
      split: sum.splits option.splits if_splits)

lemma event_setup_proximity_absent:
  "model \<notin> set (PROXIMITY_SENSOR C) \<Longrightarrow>
   BangOlufsenEventProximity \<notin> set (added (event_async_setup_entry C model uid remotes))"
  by (auto simp add: event_async_setup_entry_def Let_def
      split: sum.splits option.splits if_splits)

lemma event_setup_failed_adds_nothing:
  "raised (event_async_setup_entry C model uid remotes) \<noteq> None \<Longrightarrow>
   added (event_async_setup_entry C model uid remotes) = []"
  by (auto simp add: event_async_setup_entry_def Let_def
      split: sum.splits option.splits if_splits)

lemma other_compatible_models:
  "model \<in> set COMPATIBLE_MODELS \<Longrightarrow> model \<notin> set SupportEnum_PROXIMITY_SENSOR \<Longrightarrow>
   model \<in> {''Beosound A5'', ''Beosound A9 5th Gen'', ''Beosound Emerge''}"
  unfolding COMPATIBLE_MODELS_def ModelEnum_def SupportEnum_PROXIMITY_SENSOR_def
  by (simp only: list.set insert_iff empty_iff de_Morgan_disj) blast

text \<open>
  Claim C7. With the proximity tuple of \<^verbatim>\<open>const.py\<close>, whenever the setup of the event
  platform runs to its end, the entities it adds contain the proximity event entity if
  and only if the config entry's model is BeoLab 28, Beosound 2 3rd Gen, Beosound
  Balance, Beosound Level or Beosound Theatre, and then exactly once. For every other
  model, so for each of the other compatible models (Beosound A5, Beosound A9 5th Gen,
  Beosound Emerge), no proximity entity is added, whether the setup ends or raises.
\<close>

theorem proximity_entity_iff_supported_model:
  assumes "PROXIMITY_SENSOR C = SupportEnum_PROXIMITY_SENSOR"
  shows "(raised (event_async_setup_entry C model uid remotes) = None \<longrightarrow>
            (BangOlufsenEventProximity \<in> set (added (event_async_setup_entry C model uid remotes)))
            = (model \<in> {''BeoLab 28'', ''Beosound 2 3rd Gen'', ''Beosound Balance'',
                        ''Beosound Level'', ''Beosound Theatre''}))
       \<and> (raised (event_async_setup_entry C model uid remotes) = None \<longrightarrow>
            count_list (added (event_async_setup_entry C model uid remotes))
              BangOlufsenEventProximity
            = (if model \<in> {''BeoLab 28'', ''Beosound 2 3rd Gen'', ''Beosound Balance'',
                            ''Beosound Level'', ''Beosound Theatre''} then 1 else 0))
       \<and> (model \<notin> {''BeoLab 28'', ''Beosound 2 3rd Gen'', ''Beosound Balance'',
                     ''Beosound Level'', ''Beosound Theatre''} \<longrightarrow>
            BangOlufsenEventProximity
              \<notin> set (added (event_async_setup_entry C model uid remotes)))
       \<and> (model \<in> {''Beosound A5'', ''Beosound A9 5th Gen'', ''Beosound Emerge''} \<longrightarrow>
            model \<in> set COMPATIBLE_MODELS
            \<and> BangOlufsenEventProximity
                \<notin> set (added (event_async_setup_entry C model uid remotes)))"
proof -
  let ?R = "event_async_setup_entry C model uid remotes"
  let ?S = "{''BeoLab 28'', ''Beosound 2 3rd Gen'', ''Beosound Balance'',
             ''Beosound Level'', ''Beosound Theatre''}"
  have S: "set (PROXIMITY_SENSOR C) = ?S"
    unfolding assms SupportEnum_PROXIMITY_SENSOR_def by (simp only: list.set)
  have cnt: "count_list (added ?R) BangOlufsenEventProximity = (if model \<in> ?S then 1 else 0)"
    if "raised ?R = None"
    using event_setup_proximity_count[OF that] by (simp only: S)
  have absent: "BangOlufsenEventProximity \<notin> set (added ?R)" if "model \<notin> ?S"
  proof -
    have "model \<notin> set (PROXIMITY_SENSOR C)" unfolding S by (rule that)
    then show ?thesis by (rule event_setup_proximity_absent)
  qed
  have mem: "(BangOlufsenEventProximity \<in> set (added ?R)) = (model \<in> ?S)" if "raised ?R = None"
  proof (cases "model \<in> ?S")
    case True
    with cnt[OF that] have "count_list (added ?R) BangOlufsenEventProximity = 1"
      by (simp only: if_True)
    then have "BangOlufsenEventProximity \<in> set (added ?R)"
      by (metis count_list_0_iff zero_neq_one)
    with True show ?thesis by (simp only: simp_thms)
  next
    case False
    from absent[OF False] False show ?thesis by (simp only: simp_thms)
  qed
  have others: "model \<in> set COMPATIBLE_MODELS \<and> model \<notin> ?S"
    if "model \<in> {''Beosound A5'', ''Beosound A9 5th Gen'', ''Beosound Emerge''}"
    using that unfolding COMPATIBLE_MODELS_def ModelEnum_def
    by (elim insertE emptyE) simp_all
  have last: "model \<in> set COMPATIBLE_MODELS \<and> BangOlufsenEventProximity \<notin> set (added ?R)"
    if "model \<in> {''Beosound A5'', ''Beosound A9 5th Gen'', ''Beosound Emerge''}"
    using others[OF that] absent by (simp only: simp_thms)
  show ?thesis
  proof (intro conjI impI)
    assume "raised ?R = None"
    then show "(BangOlufsenEventProximity \<in> set (added ?R)) = (model \<in> ?S)" by (rule mem)
  next
    assume "raised ?R = None"
    then show "count_list (added ?R) BangOlufsenEventProximity = (if model \<in> ?S then 1 else 0)"
      by (rule cnt)
  next
    assume "model \<notin> ?S"
    then show "BangOlufsenEventProximity \<notin> set (added ?R)" by (rule absent)
  next
    assume a: "model \<in> {''Beosound A5'', ''Beosound A9 5th Gen'', ''Beosound Emerge''}"
    from last[OF a] show "model \<in> set COMPATIBLE_MODELS" by (rule conjunct1)
    from last[OF a] show "BangOlufsenEventProximity \<notin> set (added ?R)" by (rule conjunct2)
  qed
qed

theorem proximity_entity_iff_supported_model_witness:
  "added (event_async_setup_entry sample_event_constants ''Beosound Level'' (Some ''12345678'')
            (Inr []))
     = [BangOlufsenButtonEvent ''PlayPause'', BangOlufsenButtonEvent ''Volume'',
        BangOlufsenEventProximity]
   \<and> BangOlufsenEventProximity
       \<in> set (added (event_async_setup_entry sample_event_constants ''Beosound Level''
                       (Some ''12345678'') (Inr [])))
   \<and> BangOlufsenEventProximity
       \<notin> set (added (event_async_setup_entry sample_event_constants ''Beosound A5''
                       (Some ''12345678'') (Inr [])))"
  using proximity_entity_iff_supported_model
          [where C = sample_event_constants and model = "''Beosound Level''"
             and uid = "Some ''12345678''" and remotes = "Inr []"]
        proximity_entity_iff_supported_model
          [where C = sample_event_constants and model = "''Beosound A5''"
             and uid = "Some ''12345678''" and remotes = "Inr []"]
  by (simp add: sample_event_constants_def event_async_setup_entry_def
        SupportEnum_PROXIMITY_SENSOR_def)

section \<open>C2: aborting a configuration step on a failed request\<close>

lemma abort_reasons_cases:
  "(cls, reason) \<in> set abort_reasons \<Longrightarrow>
     (cls = ''ApiException'' \<and> reason = ''api_exception'')
   \<or> (cls = ''ClientConnectorError'' \<and> reason = ''client_connector_error'')
   \<or> (cls = ''TimeoutError'' \<and> reason = ''timeout_error'')"
  by (simp add: abort_reasons_def)

lemma request_error_result_abort:
  assumes "(cls, reason) \<in> set abort_reasons"
  shows "(request_error_result e = Abort reason) = (exc_type e = cls)"
proof -
  consider (api) "exc_type e = ''ApiException''"
    | (con) "exc_type e = ''ClientConnectorError''"
    | (tim) "exc_type e = ''TimeoutError''"
    | (other) "exc_type e \<noteq> ''ApiException''" "exc_type e \<noteq> ''ClientConnectorError''"
        "exc_type e \<noteq> ''TimeoutError''"
    by blast
  then show ?thesis
  proof cases
    case api
    then have "request_error_result e = Abort ''api_exception''"
      by (simp add: request_error_result_def isinstance_def abort_reasons_def)
    with api abort_reasons_cases[OF assms] show ?thesis by auto
  next
    case con
    then have "request_error_result e = Abort ''client_connector_error''"
      by (simp add: request_error_result_def isinstance_def abort_reasons_def)
    with con abort_reasons_cases[OF assms] show ?thesis by auto
  next
    case tim
    then have "request_error_result e = Abort ''timeout_error''"
      by (simp add: request_error_result_def isinstance_def abort_reasons_def)
    with tim abort_reasons_cases[OF assms] show ?thesis by auto
  next
    case other
    then have "map_of abort_reasons (exc_type e) = None"
      by (simp add: abort_reasons_def)
    then have "request_error_result e = Raised KeyError \<or> request_error_result e = Raised e"
      by (simp add: request_error_result_def)
    with other abort_reasons_cases[OF assms] show ?thesis by auto
  qed
qed

lemma abort_reason_not_flow_reason:
  assumes "(cls, reason) \<in> set abort_reasons"
  shows "reason \<noteq> ''value_error''" "reason \<noteq> ''already_in_progress''"
    "reason \<noteq> ''already_configured''" "reason \<noteq> ''not_mozart_device''"
  using abort_reasons_cases[OF assms] by auto

lemma step_confirm_none_result:
  "snd (snd (async_step_confirm H client flow None)) = Abort ''already_in_progress''
   \<or> snd (snd (async_step_confirm H client flow None)) = Abort ''already_configured''
   \<or> snd (snd (async_step_confirm H client flow None)) = ShowConfirm"
  by (simp add: async_step_confirm_def Let_def)

lemma step_user_request_failed:
  assumes "ui_host ui = Some h" "ui_model ui = Some m" "ip_address_valid H h"
    and "get_beolink_self client = Inl e"
  shows "async_step_user H client flow (Some ui)
         = (flow\<lparr>cf_host := h, cf_model := m\<rparr>, [GetBeolinkSelf (Some 3)], request_error_result e)"
  using assms by (simp add: async_step_user_def Let_def)

lemma step_user_request_ok:
  assumes "ui_host ui = Some h" "ui_model ui = Some m" "ip_address_valid H h"
    and "get_beolink_self client = Inr bs"
    and "(cls, reason) \<in> set abort_reasons"
  shows "snd (snd (async_step_user H client flow (Some ui))) \<noteq> Abort reason"
proof (cases "jid_serial_number (bs_jid bs)")
  case (Inl ex)
  with assms(1-4) show ?thesis by (simp add: async_step_user_def Let_def)
next
  case (Inr serial)
  let ?f = "flow\<lparr>cf_host := h, cf_model := m, cf_beolink_jid := bs_jid bs,
              cf_serial_number := serial, cf_unique_id := Some serial\<rparr>"
  from step_confirm_none_result[of H client ?f] abort_reason_not_flow_reason[OF assms(5)]
  have "snd (snd (async_step_confirm H client ?f None)) \<noteq> Abort reason" by auto
  with assms(1-4) Inr abort_reason_not_flow_reason[OF assms(5)] show ?thesis
    by (auto simp add: async_step_user_def Let_def split: prod.splits)
qed

lemma step_user_not_reached:
  assumes "(cls, reason) \<in> set abort_reasons"
    and "\<not> (\<exists>ui h m. user_input = Some ui \<and> ui_host ui = Some h \<and> ui_model ui = Some m
            \<and> ip_address_valid H h)"
  shows "snd (snd (async_step_user H client flow user_input)) \<noteq> Abort reason"
  using assms(2) abort_reason_not_flow_reason[OF assms(1)]
  by (auto simp add: async_step_user_def Let_def split: option.splits)

lemma step_init_result:
  "async_step_init client entry None =
     (case get_volume_settings client of
        Inl e \<Rightarrow> ([GetVolumeSettings (Some 3)], request_error_result e)
      | Inr vs \<Rightarrow> ([GetVolumeSettings (Some 3)],
                  ShowForm ''init'' (level_or (vs_default vs) DEFAULT_DEFAULT_VOLUME)
                    (level_or (vs_maximum vs) DEFAULT_MAX_VOLUME)))"
  by (simp add: async_step_init_def split: sum.splits)

text \<open>
  What holds for the exact classes. Let (class, reason) be a pair of the reason dict.
  The user step returns the abort with that reason exactly when it reaches its request
  (a user input with host and model, and a valid address) and \<^verbatim>\<open>get_beolink_self\<close>,
  asked with a timeout of 3 seconds, raises an exception whose class is that class
  itself; the options step returns it exactly when it has no user input and
  \<^verbatim>\<open>get_volume_settings\<close> raises an exception whose class is that class itself. Such an
  abort comes after exactly one request and leaves of the flow only the host and model
  the user typed. When the request succeeds, neither step aborts with that reason.
\<close>

theorem config_steps_abort_exactly_on_request_error:
  assumes "(cls, reason) \<in> set abort_reasons"
  shows "((snd (snd (async_step_user H client flow user_input)) = Abort reason) =
            (\<exists>ui h m e. user_input = Some ui \<and> ui_host ui = Some h \<and> ui_model ui = Some m
               \<and> ip_address_valid H h \<and> get_beolink_self client = Inl e \<and> exc_type e = cls))
       \<and> (snd (snd (async_step_user H client flow user_input)) = Abort reason \<longrightarrow>
            (\<exists>h m. fst (async_step_user H client flow user_input)
                      = flow\<lparr>cf_host := h, cf_model := m\<rparr>)
            \<and> fst (snd (async_step_user H client flow user_input)) = [GetBeolinkSelf (Some 3)])
       \<and> ((snd (async_step_init client entry options_input) = Abort reason) =
            (options_input = None \<and> (\<exists>e. get_volume_settings client = Inl e \<and> exc_type e = cls)))
       \<and> (snd (async_step_init client entry options_input) = Abort reason \<longrightarrow>
            fst (async_step_init client entry options_input) = [GetVolumeSettings (Some 3)])
       \<and> (get_beolink_self client = Inr bs \<longrightarrow>
            snd (snd (async_step_user H client flow user_input)) \<noteq> Abort reason)
       \<and> (get_volume_settings client = Inr vs \<longrightarrow>
            snd (async_step_init client entry options_input) \<noteq> Abort reason)"
proof -
  let ?U = "async_step_user H client flow user_input"
  let ?I = "async_step_init client entry options_input"
  let ?reach = "\<exists>ui h m. user_input = Some ui \<and> ui_host ui = Some h \<and> ui_model ui = Some m
                  \<and> ip_address_valid H h"
  have user_iff: "(snd (snd ?U) = Abort reason) =
      (\<exists>ui h m e. user_input = Some ui \<and> ui_host ui = Some h \<and> ui_model ui = Some m
         \<and> ip_address_valid H h \<and> get_beolink_self client = Inl e \<and> exc_type e = cls)"
    and user_state: "snd (snd ?U) = Abort reason \<longrightarrow>
      (\<exists>h m. fst ?U = flow\<lparr>cf_host := h, cf_model := m\<rparr>)
      \<and> fst (snd ?U) = [GetBeolinkSelf (Some 3)]"
  proof -
    show "(snd (snd ?U) = Abort reason) =
      (\<exists>ui h m e. user_input = Some ui \<and> ui_host ui = Some h \<and> ui_model ui = Some m
         \<and> ip_address_valid H h \<and> get_beolink_self client = Inl e \<and> exc_type e = cls)"
    proof (cases ?reach)
      case False
      with step_user_not_reached[OF assms False, of client flow] show ?thesis by blast
    next
      case True
      then obtain ui h m where r: "user_input = Some ui" "ui_host ui = Some h"
        "ui_model ui = Some m" "ip_address_valid H h" by blast
      show ?thesis
      proof (cases "get_beolink_self client")
        case (Inl e)
        from step_user_request_failed[OF r(2-4) Inl, of flow] r(1)
        have "snd (snd ?U) = request_error_result e" by simp
        with request_error_result_abort[OF assms, of e] r Inl show ?thesis by auto
      next
        case (Inr bs')
        from step_user_request_ok[OF r(2-4) Inr assms, of flow] r(1) Inr
        show ?thesis by auto
      qed
    qed
    show "snd (snd ?U) = Abort reason \<longrightarrow>
      (\<exists>h m. fst ?U = flow\<lparr>cf_host := h, cf_model := m\<rparr>)
      \<and> fst (snd ?U) = [GetBeolinkSelf (Some 3)]"
    proof
      assume ab: "snd (snd ?U) = Abort reason"
      have reach: ?reach
      proof (rule ccontr)
        assume "\<not> ?reach"
        from step_user_not_reached[OF assms this, of client flow] ab show False by simp
      qed
      then obtain ui h m where r: "user_input = Some ui" "ui_host ui = Some h"
        "ui_model ui = Some m" "ip_address_valid H h" by blast
      show "(\<exists>h m. fst ?U = flow\<lparr>cf_host := h, cf_model := m\<rparr>)
            \<and> fst (snd ?U) = [GetBeolinkSelf (Some 3)]"
      proof (cases "get_beolink_self client")
        case (Inl e)
        from step_user_request_failed[OF r(2-4) Inl, of flow] r(1) show ?thesis by auto
      next
        case (Inr bs')
        from step_user_request_ok[OF r(2-4) Inr assms, of flow] r(1) ab show ?thesis by simp
      qed
    qed
  qed
  have init_iff: "(snd ?I = Abort reason) =
      (options_input = None \<and> (\<exists>e. get_volume_settings client = Inl e \<and> exc_type e = cls))"
  proof (cases options_input)
    case (Some ui)
    then show ?thesis by (simp add: async_step_init_def)
  next
    case None
    show ?thesis
    proof (cases "get_volume_settings client")
      case (Inl e)
      with None request_error_result_abort[OF assms, of e] show ?thesis
        by (simp add: step_init_result)
    next
      case (Inr vs')
      with None show ?thesis by (simp add: step_init_result)
    qed
  qed
  have init_req: "snd ?I = Abort reason \<longrightarrow> fst ?I = [GetVolumeSettings (Some 3)]"
    by (cases options_input; cases "get_volume_settings client")
       (simp_all add: async_step_init_def)
  have user_ok: "get_beolink_self client = Inr bs \<longrightarrow> snd (snd ?U) \<noteq> Abort reason"
    using user_iff by auto
  have init_ok: "get_volume_settings client = Inr vs \<longrightarrow> snd ?I \<noteq> Abort reason"
    using init_iff by auto
  from user_iff user_state init_iff init_req user_ok init_ok show ?thesis
    by (intro conjI)
qed

theorem config_steps_abort_exactly_on_request_error_witness:
  "async_step_user open_host silent_device BangOlufsenConfigFlowHandler (Some balance_input)
     = (BangOlufsenConfigFlowHandler\<lparr>cf_host := ''192.168.1.20'', cf_model := ''Beosound Balance''\<rparr>,
        [GetBeolinkSelf (Some 3)], Abort ''timeout_error'')
   \<and> async_step_init silent_device balance_entry None
     = ([GetVolumeSettings (Some 3)], Abort ''timeout_error'')
   \<and> snd (snd (async_step_user open_host balance_device BangOlufsenConfigFlowHandler
                  (Some balance_input))) \<noteq> Abort ''timeout_error''"
proof -
  have m: "(''TimeoutError'', ''timeout_error'') \<in> set abort_reasons"
    by (simp add: abort_reasons_def)
  have u: "snd (snd (async_step_user open_host silent_device BangOlufsenConfigFlowHandler
                       (Some balance_input))) = Abort ''timeout_error''"
    using config_steps_abort_exactly_on_request_error
            [OF m, where H = open_host and client = silent_device
               and flow = BangOlufsenConfigFlowHandler and user_input = "Some balance_input"]
    by (simp add: silent_device_def balance_input_def open_host_def UserInput_empty_def)
  have i: "snd (async_step_init silent_device balance_entry None) = Abort ''timeout_error''"
    using config_steps_abort_exactly_on_request_error
            [OF m, where client = silent_device and entry = balance_entry
               and options_input = None]
    by (simp add: silent_device_def)
  have ok: "snd (snd (async_step_user open_host balance_device BangOlufsenConfigFlowHandler
                        (Some balance_input))) \<noteq> Abort ''timeout_error''"
    using config_steps_abort_exactly_on_request_error
            [OF m, where H = open_host and client = balance_device
               and flow = BangOlufsenConfigFlowHandler and user_input = "Some balance_input"
               and bs = "\<lparr>bs_friendly_name = ''Living room'',
                          bs_jid = ''1200.1234567.12345678@products.bang-olufsen.com''\<rparr>"]
    by (simp add: balance_device_def)
  have full: "async_step_user open_host silent_device BangOlufsenConfigFlowHandler
                (Some balance_input)
       = (BangOlufsenConfigFlowHandler\<lparr>cf_host := ''192.168.1.20'', cf_model := ''Beosound Balance''\<rparr>,
          [GetBeolinkSelf (Some 3)],
          snd (snd (async_step_user open_host silent_device BangOlufsenConfigFlowHandler
                      (Some balance_input))))"
    by (simp add: async_step_user_def silent_device_def balance_input_def open_host_def
          UserInput_empty_def Let_def)
  have fulli: "async_step_init silent_device balance_entry None
       = ([GetVolumeSettings (Some 3)], snd (async_step_init silent_device balance_entry None))"
    by (simp add: async_step_init_def silent_device_def)
  from u i ok full fulli show ?thesis by simp
qed

text \<open>
  Claim C2 says that each step aborts with its reason exactly when the request raises
  ApiException, ClientConnectorError or TimeoutError. The \<^verbatim>\<open>except\<close> clause catches every
  instance of these classes, but the reason is looked up by \<^verbatim>\<open>type(error)\<close> in a dict
  that has the three classes only. When the request raises an instance of a subclass
  (here \<^verbatim>\<open>NotFoundException\<close>, an \<^verbatim>\<open>ApiException\<close>, and \<^verbatim>\<open>ServerTimeoutError\<close>, a
  \<^verbatim>\<open>TimeoutError\<close>), the lookup inside the handler raises KeyError: the user step and the
  options step end in that KeyError after their one request, and do not abort.
\<close>

theorem config_steps_subclass_exception_key_error:
  "isinstance NotFoundException ''ApiException''
   \<and> async_step_user open_host not_found_device BangOlufsenConfigFlowHandler (Some balance_input)
     = (BangOlufsenConfigFlowHandler\<lparr>cf_host := ''192.168.1.20'', cf_model := ''Beosound Balance''\<rparr>,
        [GetBeolinkSelf (Some 3)], Raised KeyError)
   \<and> async_step_init not_found_device balance_entry None
     = ([GetVolumeSettings (Some 3)], Raised KeyError)
   \<and> isinstance ServerTimeoutError ''TimeoutError''
   \<and> async_step_user open_host stalled_device BangOlufsenConfigFlowHandler (Some balance_input)
     = (BangOlufsenConfigFlowHandler\<lparr>cf_host := ''192.168.1.20'', cf_model := ''Beosound Balance''\<rparr>,
        [GetBeolinkSelf (Some 3)], Raised KeyError)
   \<and> async_step_init stalled_device balance_entry None
     = ([GetVolumeSettings (Some 3)], Raised KeyError)"
  by (simp add: async_step_user_def async_step_init_def request_error_result_def
        isinstance_def abort_reasons_def NotFoundException_def ServerTimeoutError_def
        not_found_device_def stalled_device_def open_host_def balance_input_def
        UserInput_empty_def Let_def)

section \<open>C3: invalid sources and media types\<close>

text \<open>
  The claim as written covers every media type outside \<^verbatim>\<open>VALID_MEDIA_TYPES\<close>. When the
  media id is a media-source id, \<^verbatim>\<open>async_play_media\<close> first replaces the media type by
  \<^verbatim>\<open>MediaType.URL\<close> and the id by the resolved URL; the validity test then sees the
  replaced type, and the URL is played whatever the type passed in was.
\<close>

theorem play_media_invalid_type_counterexample:
  "''video'' \<notin> set (VALID_MEDIA_TYPES sample_media_host)
   \<and> (async_play_media sample_media_host (BangOlufsenMediaPlayer ''j'' 100 5) ''video''
        ''media-source://media_source/local/bell.mp3'' None :: int outcome)
     = (BangOlufsenMediaPlayer ''j'' 100 5,
        [Request (post_uri_source ''http://192.168.1.2:8123/media/local/bell.mp3'')], None)"
  by (simp add: async_play_media_def sample_media_host_def VALID_MEDIA_TYPES_def
        BangOlufsenMediaType_FAVOURITE_def BangOlufsenMediaType_DEEZER_def
        BangOlufsenMediaType_RADIO_def BangOlufsenMediaType_TTS_def py_endswith_def)

text \<open>
  Claim C3, amended. For every source name that is not in the friendly source list,
  \<^verbatim>\<open>async_select_source\<close> logs an error and sends no request. For every media type that is
  not in \<^verbatim>\<open>VALID_MEDIA_TYPES\<close> and every media id that is not a media-source id,
  \<^verbatim>\<open>async_play_media\<close> logs an error and returns without sending any request. In both
  cases the log line is the only effect and the entity is returned unchanged.
\<close>

theorem invalid_commands_only_logged:
  "(source \<notin> set (mp_source_list_friendly e) \<longrightarrow>
      (async_select_source e source :: 'f outcome)
        = (e, [LogError ''Invalid source: %s. Valid sources are: %s''], None))
   \<and> (media_type \<notin> set (VALID_MEDIA_TYPES H) \<longrightarrow> \<not> is_media_source_id H media_id \<longrightarrow>
      (async_play_media H e media_type media_id kwargs :: 'f outcome)
        = (e, [LogError ''%s is an invalid type. Valid values are: %s''], None))"
  by (simp add: async_select_source_def async_play_media_def)

theorem invalid_commands_only_logged_witness:
  "(async_select_source (BangOlufsenMediaPlayer ''j'' 100 5) ''Tape'' :: int outcome)
     = (BangOlufsenMediaPlayer ''j'' 100 5,
        [LogError ''Invalid source: %s. Valid sources are: %s''], None)
   \<and> (async_play_media sample_media_host (BangOlufsenMediaPlayer ''j'' 100 5) ''video''
        ''http://example.org/a.mp3'' None :: int outcome)
     = (BangOlufsenMediaPlayer ''j'' 100 5,
        [LogError ''%s is an invalid type. Valid values are: %s''], None)"
  using invalid_commands_only_logged
    [where ?'f = int and e = "BangOlufsenMediaPlayer ''j'' 100 5" and source = "''Tape''"
       and H = sample_media_host and media_type = "''video''"
       and media_id = "''http://example.org/a.mp3''" and kwargs = None]
  by (simp add: BangOlufsenMediaPlayer_def sample_media_host_def VALID_MEDIA_TYPES_def
        BangOlufsenMediaType_FAVOURITE_def BangOlufsenMediaType_DEEZER_def
        BangOlufsenMediaType_RADIO_def BangOlufsenMediaType_TTS_def)

section \<open>C5: failed requests\<close>












section \<open>C6: setting the volume of a Beolink group\<close>

lemma count_list_distinct_member:
  "distinct xs \<Longrightarrow> x \<in> set xs \<Longrightarrow> count_list xs x = 1"
  by (induction xs) (auto simp add: count_list_0_iff)

lemma listener_dispatch_count:
  "length (filter (\<lambda>x. x = DispatcherSend (jid @ suffix) args)
             (map (\<lambda>l. DispatcherSend (listener_jid l @ suffix) args) ls))
     = count_list (map listener_jid ls) jid"
  by (induction ls) auto

lemma listener_dispatch_no_request:
  "filter (\<lambda>x. \<exists>l. x = Request (set_current_volume_level l))
     (map (\<lambda>l. DispatcherSend (f l) args) ls) = []"
  by (induction ls) auto

lemma beolink_set_volume_leader:
  assumes "mp_remote_leader e = None" "float_of_str B volume_level = Some volume"
    and "int_of_float_times B volume 100 = Inr level"
  shows "async_beolink_set_volume B e volume_level =
     (Request (set_current_volume_level level) #
      map (\<lambda>l. DispatcherSend (listener_jid l @ ''_'' @ BEOLINK_LISTENER_COMMAND)
                 [PStr ''set_volume_level'', PStr volume_level])
          (mp_beolink_listeners e),
      None)"
  using assms
  by (simp add: async_beolink_set_volume_def py_float_def async_set_volume_level_def)

text \<open>
  The claim as written promises, for every call on a device without a remote leader,
  that the local volume is set once and that no listener receives the command twice.
  The volume level arrives as a string: one that \<^verbatim>\<open>float\<close> rejects raises ValueError
  before anything is set or sent. The loop sends one command per entry of the listeners
  list and removes no duplicates: a JID that the list names twice receives two.
\<close>

theorem beolink_set_volume_counterexample:
  "async_beolink_set_volume whole_floats single_listener_player ''abc''
     = ([], Some ValueError)
   \<and> length (filter
        (\<lambda>x. x = DispatcherSend ''1.1.2@products.bang-olufsen.com_BEOLINK_LISTENER_COMMAND''
                     [PStr ''set_volume_level'', PStr ''1''])
        (fst (async_beolink_set_volume whole_floats repeated_listener_player ''1''))) = 2"
  by (simp add: async_beolink_set_volume_def async_set_volume_level_def py_float_def
        whole_floats_def decimal_int_def digit_value_def single_listener_player_def
        repeated_listener_player_def BangOlufsenMediaPlayer_def BEOLINK_LISTENER_COMMAND_def)

text \<open>
  Claim C6, amended. On a device with a remote leader, \<^verbatim>\<open>async_beolink_set_volume\<close> sends
  the volume level exactly once, on the volume channel of the leader's JID, and does
  nothing else: the local volume is not set. On a device without a remote leader, for a
  volume level that \<^verbatim>\<open>float\<close> reads and \<^verbatim>\<open>int(volume * 100)\<close> converts, it sets the local
  volume once and then sends one \<^verbatim>\<open>set_volume_level\<close> listener command per entry of the
  listeners list, in order, and nothing else: the number of commands sent to a JID is
  the number of entries with that JID, so each JID of a list without repeated JIDs
  receives exactly one, and a JID that is not in the list receives none. For a volume
  level that \<^verbatim>\<open>float\<close> rejects it raises ValueError and sets and sends nothing.
\<close>

theorem beolink_set_volume_delivers_once:
  fixes B :: "'f py_builtins"
  shows "(mp_remote_leader e = Some leader \<longrightarrow>
      async_beolink_set_volume B e volume_level
        = ([DispatcherSend (leader_jid leader @ ''_'' @ BEOLINK_VOLUME) [PStr volume_level]],
           None))
   \<and> (mp_remote_leader e = None \<longrightarrow> float_of_str B volume_level = Some volume \<longrightarrow>
      int_of_float_times B volume 100 = Inr level \<longrightarrow>
        async_beolink_set_volume B e volume_level
          = (Request (set_current_volume_level level) #
             map (\<lambda>l. DispatcherSend (listener_jid l @ ''_'' @ BEOLINK_LISTENER_COMMAND)
                        [PStr ''set_volume_level'', PStr volume_level])
                 (mp_beolink_listeners e),
             None)
        \<and> length (filter (\<lambda>x. \<exists>l. x = Request (set_current_volume_level l))
                   (fst (async_beolink_set_volume B e volume_level))) = 1
        \<and> length (filter (\<lambda>x. x = DispatcherSend (jid @ ''_'' @ BEOLINK_LISTENER_COMMAND)
                                   [PStr ''set_volume_level'', PStr volume_level])
                   (fst (async_beolink_set_volume B e volume_level)))
            = count_list (map listener_jid (mp_beolink_listeners e)) jid
        \<and> (distinct (map listener_jid (mp_beolink_listeners e)) \<longrightarrow>
             length (filter (\<lambda>x. x = DispatcherSend (jid @ ''_'' @ BEOLINK_LISTENER_COMMAND)
                                   [PStr ''set_volume_level'', PStr volume_level])
                   (fst (async_beolink_set_volume B e volume_level)))
               = (if jid \<in> listener_jid ` set (mp_beolink_listeners e) then 1 else 0)))
   \<and> (mp_remote_leader e = None \<longrightarrow> float_of_str B volume_level = None \<longrightarrow>
        async_beolink_set_volume B e volume_level = ([], Some ValueError))"
proof (intro conjI impI)
  assume "mp_remote_leader e = Some leader"
  then show "async_beolink_set_volume B e volume_level
        = ([DispatcherSend (leader_jid leader @ ''_'' @ BEOLINK_VOLUME) [PStr volume_level]],
           None)"
    by (simp add: async_beolink_set_volume_def)
next
  assume a: "mp_remote_leader e = None" "float_of_str B volume_level = Some volume"
    "int_of_float_times B volume 100 = Inr level"
  note eq = beolink_set_volume_leader[OF a]
  show "async_beolink_set_volume B e volume_level
          = (Request (set_current_volume_level level) #
             map (\<lambda>l. DispatcherSend (listener_jid l @ ''_'' @ BEOLINK_LISTENER_COMMAND)
                        [PStr ''set_volume_level'', PStr volume_level])
                 (mp_beolink_listeners e),
             None)"
    by (rule eq)
  show "length (filter (\<lambda>x. \<exists>l. x = Request (set_current_volume_level l))
                   (fst (async_beolink_set_volume B e volume_level))) = 1"
    by (simp add: eq listener_dispatch_no_request)
  show cnt: "length (filter (\<lambda>x. x = DispatcherSend (jid @ ''_'' @ BEOLINK_LISTENER_COMMAND)
                                   [PStr ''set_volume_level'', PStr volume_level])
                   (fst (async_beolink_set_volume B e volume_level)))
            = count_list (map listener_jid (mp_beolink_listeners e)) jid"
  proof -
    have "length (filter (\<lambda>x. x = DispatcherSend (jid @ ''_'' @ BEOLINK_LISTENER_COMMAND)
                                   [PStr ''set_volume_level'', PStr volume_level])
                   (fst (async_beolink_set_volume B e volume_level)))
        = length (filter (\<lambda>x::'f effect. x = DispatcherSend (jid @ ''_'' @ BEOLINK_LISTENER_COMMAND)
                                   [PStr ''set_volume_level'', PStr volume_level])
                   (map (\<lambda>l. DispatcherSend (listener_jid l @ ''_'' @ BEOLINK_LISTENER_COMMAND)
                              [PStr ''set_volume_level'', PStr volume_level])
                        (mp_beolink_listeners e)))"
      by (simp only: eq fst_conv filter.simps effect.distinct if_False simp_thms)
    also have "\<dots> = count_list (map listener_jid (mp_beolink_listeners e)) jid"
      by (rule listener_dispatch_count)
    finally show ?thesis .
  qed
  assume d: "distinct (map listener_jid (mp_beolink_listeners e))"
  show "length (filter (\<lambda>x. x = DispatcherSend (jid @ ''_'' @ BEOLINK_LISTENER_COMMAND)
                                   [PStr ''set_volume_level'', PStr volume_level])
                   (fst (async_beolink_set_volume B e volume_level)))
               = (if jid \<in> listener_jid ` set (mp_beolink_listeners e) then 1 else 0)"
  proof (cases "jid \<in> listener_jid ` set (mp_beolink_listeners e)")
    case True
    then have "jid \<in> set (map listener_jid (mp_beolink_listeners e))" by simp
    from count_list_distinct_member[OF d this] True cnt show ?thesis by simp
  next
    case False
    then have "jid \<notin> set (map listener_jid (mp_beolink_listeners e))" by simp
    then have "count_list (map listener_jid (mp_beolink_listeners e)) jid = 0"
      by (simp add: count_list_0_iff)
    with False cnt show ?thesis by simp
  qed
next
  assume "mp_remote_leader e = None" and "float_of_str B volume_level = None"
  then show "async_beolink_set_volume B e volume_level = ([], Some ValueError)"
    by (simp add: async_beolink_set_volume_def py_float_def)
qed

theorem beolink_set_volume_delivers_once_witness:
  "async_beolink_set_volume whole_floats
     ((BangOlufsenMediaPlayer ''1.1.1@products.bang-olufsen.com'' 100 5)
        \<lparr>mp_beolink_listeners := [\<lparr>listener_jid = ''1.1.2@products.bang-olufsen.com''\<rparr>,
                                  \<lparr>listener_jid = ''1.1.3@products.bang-olufsen.com''\<rparr>]\<rparr>)
     ''1''
   = ([Request (set_current_volume_level 100),
       DispatcherSend ''1.1.2@products.bang-olufsen.com_BEOLINK_LISTENER_COMMAND''
         [PStr ''set_volume_level'', PStr ''1''],
       DispatcherSend ''1.1.3@products.bang-olufsen.com_BEOLINK_LISTENER_COMMAND''
         [PStr ''set_volume_level'', PStr ''1'']],
      None)
   \<and> async_beolink_set_volume whole_floats
     ((BangOlufsenMediaPlayer ''1.1.2@products.bang-olufsen.com'' 100 5)
        \<lparr>mp_remote_leader := Some \<lparr>leader_friendly_name = ''Kitchen'',
                                    leader_jid = ''1.1.1@products.bang-olufsen.com''\<rparr>\<rparr>)
     ''1''
   = ([DispatcherSend ''1.1.1@products.bang-olufsen.com_BEOLINK_VOLUME'' [PStr ''1'']], None)"
  using beolink_set_volume_delivers_once
          [where B = whole_floats and volume_level = "''1''" and volume = 1 and level = 100
             and e = "(BangOlufsenMediaPlayer ''1.1.1@products.bang-olufsen.com'' 100 5)
                \<lparr>mp_beolink_listeners := [\<lparr>listener_jid = ''1.1.2@products.bang-olufsen.com''\<rparr>,
                                          \<lparr>listener_jid = ''1.1.3@products.bang-olufsen.com''\<rparr>]\<rparr>"]
        beolink_set_volume_delivers_once
          [where B = whole_floats and volume_level = "''1''"
             and leader = "\<lparr>leader_friendly_name = ''Kitchen'',
                             leader_jid = ''1.1.1@products.bang-olufsen.com''\<rparr>"
             and e = "(BangOlufsenMediaPlayer ''1.1.2@products.bang-olufsen.com'' 100 5)
                \<lparr>mp_remote_leader := Some \<lparr>leader_friendly_name = ''Kitchen'',
                                            leader_jid = ''1.1.1@products.bang-olufsen.com''\<rparr>\<rparr>"]
  by (simp add: BangOlufsenMediaPlayer_def whole_floats_def decimal_int_def digit_value_def
        BEOLINK_LISTENER_COMMAND_def BEOLINK_VOLUME_def)

section \<open>C10: choosing the artwork\<close>

lemma py_getitem_split_first: "py_getitem (py_split c s) 0 = Inr (hd (py_split c s))"
  using py_split_nonempty[of c s]
  by (cases "py_split c s") (simp_all add: py_getitem_def)

lemma artwork_images_keyed:
  assumes "art_key first \<noteq> None"
    and "\<forall>a \<in> set arts. art_width int_of_str a \<noteq> None"
  shows "artwork_images int_of_str first arts images
         = Inr (images @ map (\<lambda>a. the (art_width int_of_str a)) arts)"
  using assms
proof (induction arts arbitrary: images)
  case Nil
  then show ?case by simp
next
  case (Cons a arts)
  from Cons.prems(2) obtain k n where k: "art_key a = Some k"
    and n: "int_of_str (hd (py_split (CHR ''x'') k)) = Some n"
    by (auto simp add: art_width_def split: option.splits)
  from Cons.prems have rest: "\<forall>b \<in> set arts. art_width int_of_str b \<noteq> None" by simp
  have "artwork_images int_of_str first (a # arts) images
        = artwork_images int_of_str first arts (images @ [n])"
    using Cons.prems(1) k n by (simp add: py_getitem_split_first)
  also have "\<dots> = Inr ((images @ [n]) @ map (\<lambda>a. the (art_width int_of_str a)) arts)"
    by (rule Cons.IH[OF Cons.prems(1) rest])
  finally show ?case using k n by (simp add: art_width_def)
qed

lemma artwork_images_sized:
  assumes "art_key first = None" and "art_size first \<noteq> None"
    and "\<forall>a \<in> set arts. art_rank a \<noteq> None"
  shows "artwork_images int_of_str first arts images
         = Inr (images @ map (\<lambda>a. the (art_rank a)) arts)"
  using assms
proof (induction arts arbitrary: images)
  case Nil
  then show ?case by simp
next
  case (Cons a arts)
  from Cons.prems(3) obtain s v where s: "art_size a = Some s"
    and v: "map_of ArtSizeEnum s = Some v"
    by (auto simp add: art_rank_def split: option.splits)
  from Cons.prems have rest: "\<forall>b \<in> set arts. art_rank b \<noteq> None" by simp
  have "artwork_images int_of_str first (a # arts) images
        = artwork_images int_of_str first arts (images @ [v])"
    using Cons.prems(1,2) s v by simp
  also have "\<dots> = Inr ((images @ [v]) @ map (\<lambda>a. the (art_rank a)) arts)"
    by (rule Cons.IH[OF Cons.prems(1,2) rest])
  finally show ?case using s v by (simp add: art_rank_def)
qed

lemma py_index_member:
  "x \<in> set xs \<Longrightarrow> \<exists>i. py_index xs x = Inr i \<and> i < length xs \<and> xs ! i = x"
  by (induction xs) auto

lemma py_max_nonempty:
  "xs \<noteq> [] \<Longrightarrow> \<exists>m. py_max xs = Inr m \<and> m \<in> set xs \<and> (\<forall>x \<in> set xs. x \<le> m)"
proof (cases xs)
  case Nil
  assume "xs \<noteq> []"
  with Nil show ?thesis by simp
next
  case (Cons y ys)
  have m: "fold max ys y = Max (set (y # ys))" by (simp only: Max.set_eq_fold)
  have "Max (set (y # ys)) \<in> set (y # ys)" by (rule Max_in) simp_all
  moreover have "\<forall>x \<in> set (y # ys). x \<le> Max (set (y # ys))" by simp
  ultimately show ?thesis using Cons m by (simp add: py_max_def)
qed

text \<open>Once the loop has produced one number per entry, the entry stored is in the list
  and carries the largest number.\<close>

lemma update_artwork_chooses_max:
  assumes md: "mp_playback_metadata e = Some md" "md_art md = Some arts" "arts \<noteq> []"
    and imgs: "artwork_images int_of_str (hd arts) arts [] = Inr (map w arts)"
  shows "\<exists>img. update_artwork int_of_str e = (e\<lparr>mp_media_image := img\<rparr>, None)
           \<and> img \<in> set arts \<and> (\<forall>a \<in> set arts. w a \<le> w img)"
proof -
  from md(3) have ne: "map w arts \<noteq> []" by simp
  from py_max_nonempty[OF ne] obtain m where m: "py_max (map w arts) = Inr m"
    "m \<in> set (map w arts)" "\<forall>x \<in> set (map w arts). x \<le> m" by blast
  from py_index_member[OF m(2)] obtain i where i: "py_index (map w arts) m = Inr i"
    "i < length (map w arts)" "map w arts ! i = m" by blast
  from i(2) have il: "i < length arts" by simp
  then have get: "py_getitem arts i = Inr (arts ! i)" by (simp add: py_getitem_def)
  from i(3) il have wi: "w (arts ! i) = m" by simp
  have "update_artwork int_of_str e = (e\<lparr>mp_media_image := arts ! i\<rparr>, None)"
    using md imgs m(1) i(1) get by (simp add: update_artwork_def)
  moreover have "arts ! i \<in> set arts" using il by simp
  moreover have "\<forall>a \<in> set arts. w a \<le> w (arts ! i)" using m(3) wi by simp
  ultimately show ?thesis by blast
qed

text \<open>
  The claim as written asks of each entry only that it carries a key or a size. The
  loop decides from the first entry alone how it reads every entry: here the first has
  a key and the second only a size, so the second round calls \<^verbatim>\<open>split\<close> on \<^verbatim>\<open>None\<close>.
  The method ends in an AttributeError and the old image stays.
\<close>

theorem update_artwork_mixed_counterexample:
  "update_artwork decimal_int mixed_art_player = (mixed_art_player, Some AttributeError)
   \<and> art_url (mp_media_image (fst (update_artwork decimal_int mixed_art_player)))
       = Some ''http://old''"
  by (simp add: update_artwork_def mixed_art_player_def BangOlufsenMediaPlayer_def
        py_getitem_def decimal_int_def digit_value_def)

text \<open>
  Claim C10, amended. After \<^verbatim>\<open>_update_artwork\<close>: if the metadata has a non-empty art list
  and either every entry has a key whose width \<^verbatim>\<open>int\<close> reads, or the first entry has no
  key and every entry has a size in small, medium, large, then the stored image is an
  entry of the list whose width (in the first case) or size rank (in the second) is
  maximal over the list. If the metadata is missing, has no art list or an empty one,
  the stored image is reset to the empty \<^verbatim>\<open>Art\<close>. (Lists that mix the two kinds of entry
  are left out.)
\<close>

theorem update_artwork_selects_largest:
  "(mp_playback_metadata e = Some md \<longrightarrow> md_art md = Some arts \<longrightarrow> arts \<noteq> [] \<longrightarrow>
      (\<forall>a \<in> set arts. art_width int_of_str a \<noteq> None) \<longrightarrow>
        (\<exists>img. update_artwork int_of_str e = (e\<lparr>mp_media_image := img\<rparr>, None)
           \<and> img \<in> set arts
           \<and> (\<forall>a \<in> set arts. the (art_width int_of_str a) \<le> the (art_width int_of_str img))))
   \<and> (mp_playback_metadata e = Some md \<longrightarrow> md_art md = Some arts \<longrightarrow> arts \<noteq> [] \<longrightarrow>
      art_key (hd arts) = None \<longrightarrow> (\<forall>a \<in> set arts. art_rank a \<noteq> None) \<longrightarrow>
        (\<exists>img. update_artwork int_of_str e = (e\<lparr>mp_media_image := img\<rparr>, None)
           \<and> img \<in> set arts
           \<and> (\<forall>a \<in> set arts. the (art_rank a) \<le> the (art_rank img))))
   \<and> (mp_playback_metadata e = None
        \<or> (\<exists>md. mp_playback_metadata e = Some md \<and> (md_art md = None \<or> md_art md = Some []))
      \<longrightarrow> update_artwork int_of_str e = (e\<lparr>mp_media_image := Art\<rparr>, None))"
proof (intro conjI impI)
  assume md: "mp_playback_metadata e = Some md" "md_art md = Some arts" "arts \<noteq> []"
    and all: "\<forall>a \<in> set arts. art_width int_of_str a \<noteq> None"
  from md(3) all have "art_width int_of_str (hd arts) \<noteq> None" by simp
  then have first: "art_key (hd arts) \<noteq> None"
    by (auto simp add: art_width_def split: option.splits)
  from artwork_images_keyed[OF first all, of "[]"]
  have "artwork_images int_of_str (hd arts) arts []
        = Inr (map (\<lambda>a. the (art_width int_of_str a)) arts)" by simp
  from update_artwork_chooses_max[OF md this]
  show "\<exists>img. update_artwork int_of_str e = (e\<lparr>mp_media_image := img\<rparr>, None)
           \<and> img \<in> set arts
           \<and> (\<forall>a \<in> set arts. the (art_width int_of_str a) \<le> the (art_width int_of_str img))" .
next
  assume md: "mp_playback_metadata e = Some md" "md_art md = Some arts" "arts \<noteq> []"
    and nokey: "art_key (hd arts) = None"
    and all: "\<forall>a \<in> set arts. art_rank a \<noteq> None"
  from md(3) all have "art_rank (hd arts) \<noteq> None" by simp
  then have first: "art_size (hd arts) \<noteq> None"
    by (auto simp add: art_rank_def split: option.splits)
  from artwork_images_sized[OF nokey first all, of int_of_str "[]"]
  have "artwork_images int_of_str (hd arts) arts [] = Inr (map (\<lambda>a. the (art_rank a)) arts)"
    by simp
  from update_artwork_chooses_max[OF md this]
  show "\<exists>img. update_artwork int_of_str e = (e\<lparr>mp_media_image := img\<rparr>, None)
           \<and> img \<in> set arts \<and> (\<forall>a \<in> set arts. the (art_rank a) \<le> the (art_rank img))" .
next
  assume "mp_playback_metadata e = None
        \<or> (\<exists>md. mp_playback_metadata e = Some md \<and> (md_art md = None \<or> md_art md = Some []))"
  then show "update_artwork int_of_str e = (e\<lparr>mp_media_image := Art\<rparr>, None)"
    by (auto simp add: update_artwork_def)
qed

theorem update_artwork_selects_largest_witness:
  "(\<exists>img. update_artwork decimal_int keyed_art_player
            = (keyed_art_player\<lparr>mp_media_image := img\<rparr>, None)
         \<and> art_width decimal_int img = Some 640)
   \<and> update_artwork decimal_int (BangOlufsenMediaPlayer ''j'' 100 5)
     = ((BangOlufsenMediaPlayer ''j'' 100 5)\<lparr>mp_media_image := Art\<rparr>, None)"
proof -
  let ?a1 = "\<lparr>art_key = Some ''128x128'', art_size = None, art_url = Some ''http://a'',
              art_has_local_image = None\<rparr>"
  let ?a2 = "\<lparr>art_key = Some ''640x640'', art_size = None, art_url = Some ''http://b'',
              art_has_local_image = None\<rparr>"
  let ?a3 = "\<lparr>art_key = Some ''320x320'', art_size = None, art_url = Some ''http://c'',
              art_has_local_image = None\<rparr>"
  have w: "art_width decimal_int ?a1 = Some 128" "art_width decimal_int ?a2 = Some 640"
    "art_width decimal_int ?a3 = Some 320"
    by (simp_all add: art_width_def decimal_int_def digit_value_def)
  have noart: "update_artwork decimal_int (BangOlufsenMediaPlayer ''j'' 100 5)
     = ((BangOlufsenMediaPlayer ''j'' 100 5)\<lparr>mp_media_image := Art\<rparr>, None)"
    using update_artwork_selects_largest
            [where e = "BangOlufsenMediaPlayer ''j'' 100 5" and int_of_str = decimal_int]
    by (simp add: BangOlufsenMediaPlayer_def)
  have "\<exists>img. update_artwork decimal_int keyed_art_player
            = (keyed_art_player\<lparr>mp_media_image := img\<rparr>, None)
         \<and> img \<in> set [?a1, ?a2, ?a3]
         \<and> (\<forall>a \<in> set [?a1, ?a2, ?a3].
               the (art_width decimal_int a) \<le> the (art_width decimal_int img))"
    using update_artwork_selects_largest
            [where e = keyed_art_player and int_of_str = decimal_int
               and md = "\<lparr>md_art = Some [?a1, ?a2, ?a3], md_title = None\<rparr>"
               and arts = "[?a1, ?a2, ?a3]"]
          w
    by (simp add: keyed_art_player_def BangOlufsenMediaPlayer_def)
  then obtain img where run: "update_artwork decimal_int keyed_art_player
            = (keyed_art_player\<lparr>mp_media_image := img\<rparr>, None)"
    and mem: "img = ?a1 \<or> img = ?a2 \<or> img = ?a3"
    and top: "the (art_width decimal_int ?a2) \<le> the (art_width decimal_int img)"
    by auto
  from mem top w have "art_width decimal_int img = Some 640" by auto
  with run noart show ?thesis by blast
qed

section \<open>C1: relaying a Beolink command\<close>

lemma float_command_cases:
  "command \<in> set (fst FLOAT_PARAMETERS) \<Longrightarrow>
     command = ''set_volume_level'' \<or> command = ''media_seek''"
  by (simp add: FLOAT_PARAMETERS_def)

lemma none_command_cases:
  "command \<in> set (fst NONE_PARAMETERS) \<Longrightarrow>
     command = ''volume_up'' \<or> command = ''volume_down'' \<or> command = ''media_play_pause''
   \<or> command = ''media_pause'' \<or> command = ''media_play'' \<or> command = ''media_stop''
   \<or> command = ''media_next_track'' \<or> command = ''media_previous_track''
   \<or> command = ''toggle''"
  by (simp add: NONE_PARAMETERS_def)

lemmas command_tuple_defs =
  ACCEPTED_COMMANDS_LISTS_def FLOAT_PARAMETERS_def BOOL_PARAMETERS_def STR_PARAMETERS_def
  NONE_PARAMETERS_def

lemma leader_command_float:
  assumes "command \<in> set (fst FLOAT_PARAMETERS)" and "py_float B parameter = Inr f"
  shows "async_beolink_leader_command B e command parameter =
     (case mp_remote_leader e of
        Some leader \<Rightarrow>
          ([DispatcherSend (leader_jid leader @ ''_'' @ BEOLINK_LEADER_COMMAND)
              [PStr command, PFloat f]], None)
      | None \<Rightarrow> ([MethodCall (''async_'' @ command) [PFloat f]], None))"
  using float_command_cases[OF assms(1)] assms(2)
  by (auto simp add: async_beolink_leader_command_def command_tuple_defs
        leader_check_parameter_def call_type_def emit_def py_float_def
      split: option.splits)

lemma leader_command_bool:
  assumes "command \<in> set (fst BOOL_PARAMETERS)"
  shows "async_beolink_leader_command B e command parameter =
     (case mp_remote_leader e of
        Some leader \<Rightarrow>
          ([DispatcherSend (leader_jid leader @ ''_'' @ BEOLINK_LEADER_COMMAND)
              [PStr command, PBool (py_bool B parameter)]], None)
      | None \<Rightarrow> ([MethodCall (''async_'' @ command) [PBool (py_bool B parameter)]], None))"
  using assms
  by (auto simp add: async_beolink_leader_command_def command_tuple_defs
        leader_check_parameter_def call_type_def emit_def py_bool_def
      split: option.splits)

lemma leader_command_str:
  assumes "command \<in> set (fst STR_PARAMETERS)"
  shows "async_beolink_leader_command B e command parameter =
     (case mp_remote_leader e of
        Some leader \<Rightarrow>
          ([DispatcherSend (leader_jid leader @ ''_'' @ BEOLINK_LEADER_COMMAND)
              [PStr command, PStr (py_str B parameter)]], None)
      | None \<Rightarrow> ([MethodCall (''async_'' @ command) [PStr (py_str B parameter)]], None))"
  using assms
  by (auto simp add: async_beolink_leader_command_def command_tuple_defs
        leader_check_parameter_def call_type_def emit_def py_str_def
      split: option.splits)

lemma leader_command_none:
  assumes "command \<in> set (fst NONE_PARAMETERS)"
  shows "async_beolink_leader_command B e command PNone =
     (case mp_remote_leader e of
        Some leader \<Rightarrow>
          ([DispatcherSend (leader_jid leader @ ''_'' @ BEOLINK_LEADER_COMMAND)
              [PStr command, PNone]], None)
      | None \<Rightarrow> ([MethodCall (''async_'' @ command) []], None))"
  using none_command_cases[OF assms]
  by (elim disjE)
     (simp_all add: async_beolink_leader_command_def command_tuple_defs
        leader_check_parameter_def emit_def split: option.splits)

lemma commands_not_accepted_ignored:
  assumes "command \<notin> set ACCEPTED_COMMANDS"
  shows "async_beolink_leader_command B e command parameter = ([], None)"
    and "async_beolink_listener_command B e command parameter = ([], None)"
  using assms
  by (simp_all add: async_beolink_leader_command_def async_beolink_listener_command_def
        ACCEPTED_COMMANDS_def command_tuple_defs)

text \<open>
  Claim C1. Every accepted command is in exactly one of the four command tuples, and
  for a command with a parameter that its type accepts (a parameter \<^verbatim>\<open>float\<close> reads for
  the float commands, any parameter for the bool and str commands, no parameter for the
  commands that take none) \<^verbatim>\<open>async_beolink_leader_command\<close> does exactly one thing. On a
  device with a remote leader it sends the command and the converted parameter once on
  the leader-command channel of the leader's JID and calls no local method. On a device
  without a remote leader it calls the method \<^verbatim>\<open>async_<command>\<close> once, with the converted
  parameter, or with no argument for the commands that take none, and sends nothing. A
  command that is not accepted has no effect in \<^verbatim>\<open>async_beolink_leader_command\<close> nor in
  \<^verbatim>\<open>async_beolink_listener_command\<close>.
\<close>

theorem beolink_command_relay:
  fixes B :: "'f py_builtins"
  shows "set ACCEPTED_COMMANDS
           = set (fst FLOAT_PARAMETERS) \<union> set (fst BOOL_PARAMETERS)
             \<union> set (fst STR_PARAMETERS) \<union> set (fst NONE_PARAMETERS)
       \<and> (command \<in> set (fst FLOAT_PARAMETERS) \<longrightarrow> py_float B parameter = Inr f \<longrightarrow>
            (mp_remote_leader e = Some leader \<longrightarrow>
               async_beolink_leader_command B e command parameter
                 = ([DispatcherSend (leader_jid leader @ ''_'' @ BEOLINK_LEADER_COMMAND)
                       [PStr command, PFloat f]], None))
          \<and> (mp_remote_leader e = None \<longrightarrow>
               async_beolink_leader_command B e command parameter
                 = ([MethodCall (''async_'' @ command) [PFloat f]], None)))
       \<and> (command \<in> set (fst BOOL_PARAMETERS) \<longrightarrow>
            (mp_remote_leader e = Some leader \<longrightarrow>
               async_beolink_leader_command B e command parameter
                 = ([DispatcherSend (leader_jid leader @ ''_'' @ BEOLINK_LEADER_COMMAND)
                       [PStr command, PBool (py_bool B parameter)]], None))
          \<and> (mp_remote_leader e = None \<longrightarrow>
               async_beolink_leader_command B e command parameter
                 = ([MethodCall (''async_'' @ command) [PBool (py_bool B parameter)]], None)))
       \<and> (command \<in> set (fst STR_PARAMETERS) \<longrightarrow>
            (mp_remote_leader e = Some leader \<longrightarrow>
               async_beolink_leader_command B e command parameter
                 = ([DispatcherSend (leader_jid leader @ ''_'' @ BEOLINK_LEADER_COMMAND)
                       [PStr command, PStr (py_str B parameter)]], None))
          \<and> (mp_remote_leader e = None \<longrightarrow>
               async_beolink_leader_command B e command parameter
                 = ([MethodCall (''async_'' @ command) [PStr (py_str B parameter)]], None)))
       \<and> (command \<in> set (fst NONE_PARAMETERS) \<longrightarrow>
            (mp_remote_leader e = Some leader \<longrightarrow>
               async_beolink_leader_command B e command PNone
                 = ([DispatcherSend (leader_jid leader @ ''_'' @ BEOLINK_LEADER_COMMAND)
                       [PStr command, PNone]], None))
          \<and> (mp_remote_leader e = None \<longrightarrow>
               async_beolink_leader_command B e command PNone
                 = ([MethodCall (''async_'' @ command) []], None)))
       \<and> (command \<notin> set ACCEPTED_COMMANDS \<longrightarrow>
            async_beolink_leader_command B e command parameter = ([], None)
          \<and> async_beolink_listener_command B e command parameter = ([], None))"
proof (intro conjI impI)
  show "set ACCEPTED_COMMANDS
           = set (fst FLOAT_PARAMETERS) \<union> set (fst BOOL_PARAMETERS)
             \<union> set (fst STR_PARAMETERS) \<union> set (fst NONE_PARAMETERS)"
    by (simp only: ACCEPTED_COMMANDS_def set_append Un_assoc)
next
  assume c: "command \<in> set (fst FLOAT_PARAMETERS)" and p: "py_float B parameter = Inr f"
  note eq = leader_command_float[OF c p, of e]
  { assume "mp_remote_leader e = Some leader"
    then show "async_beolink_leader_command B e command parameter
                 = ([DispatcherSend (leader_jid leader @ ''_'' @ BEOLINK_LEADER_COMMAND)
                       [PStr command, PFloat f]], None)"
      by (simp add: eq) }
  { assume "mp_remote_leader e = None"
    then show "async_beolink_leader_command B e command parameter
                 = ([MethodCall (''async_'' @ command) [PFloat f]], None)"
      by (simp add: eq) }
next
  assume c: "command \<in> set (fst BOOL_PARAMETERS)"
  note eq = leader_command_bool[OF c, of B e parameter]
  { assume "mp_remote_leader e = Some leader"
    then show "async_beolink_leader_command B e command parameter
                 = ([DispatcherSend (leader_jid leader @ ''_'' @ BEOLINK_LEADER_COMMAND)
                       [PStr command, PBool (py_bool B parameter)]], None)"
      by (simp add: eq) }
  { assume "mp_remote_leader e = None"
    then show "async_beolink_leader_command B e command parameter
                 = ([MethodCall (''async_'' @ command) [PBool (py_bool B parameter)]], None)"
      by (simp add: eq) }
next
  assume c: "command \<in> set (fst STR_PARAMETERS)"
  note eq = leader_command_str[OF c, of B e parameter]
  { assume "mp_remote_leader e = Some leader"
    then show "async_beolink_leader_command B e command parameter
                 = ([DispatcherSend (leader_jid leader @ ''_'' @ BEOLINK_LEADER_COMMAND)
                       [PStr command, PStr (py_str B parameter)]], None)"
      by (simp add: eq) }
  { assume "mp_remote_leader e = None"
    then show "async_beolink_leader_command B e command parameter
                 = ([MethodCall (''async_'' @ command) [PStr (py_str B parameter)]], None)"
      by (simp add: eq) }
next
  assume c: "command \<in> set (fst NONE_PARAMETERS)"
  note eq = leader_command_none[OF c, of B e]
  { assume "mp_remote_leader e = Some leader"
    then show "async_beolink_leader_command B e command PNone
                 = ([DispatcherSend (leader_jid leader @ ''_'' @ BEOLINK_LEADER_COMMAND)
                       [PStr command, PNone]], None)"
      by (simp add: eq) }
  { assume "mp_remote_leader e = None"
    then show "async_beolink_leader_command B e command PNone
                 = ([MethodCall (''async_'' @ command) []], None)"
      by (simp add: eq) }
next
  assume c: "command \<notin> set ACCEPTED_COMMANDS"
  show "async_beolink_leader_command B e command parameter = ([], None)"
    by (rule commands_not_accepted_ignored(1)[OF c])
  show "async_beolink_listener_command B e command parameter = ([], None)"
    by (rule commands_not_accepted_ignored(2)[OF c])
qed

theorem beolink_command_relay_witness:
  "async_beolink_leader_command whole_floats
     ((BangOlufsenMediaPlayer ''1.1.2@products.bang-olufsen.com'' 100 5)
        \<lparr>mp_remote_leader := Some \<lparr>leader_friendly_name = ''Kitchen'',
                                    leader_jid = ''1.1.1@products.bang-olufsen.com''\<rparr>\<rparr>)
     ''set_volume_level'' (PStr ''1'')
   = ([DispatcherSend ''1.1.1@products.bang-olufsen.com_BEOLINK_LEADER_COMMAND''
         [PStr ''set_volume_level'', PFloat 1]], None)
   \<and> async_beolink_leader_command whole_floats
     (BangOlufsenMediaPlayer ''1.1.1@products.bang-olufsen.com'' 100 5) ''volume_up'' PNone
   = ([MethodCall ''async_volume_up'' []], None)
   \<and> async_beolink_leader_command whole_floats
     (BangOlufsenMediaPlayer ''1.1.1@products.bang-olufsen.com'' 100 5) ''reboot'' PNone
   = ([], None)
   \<and> async_beolink_listener_command whole_floats
     (BangOlufsenMediaPlayer ''1.1.1@products.bang-olufsen.com'' 100 5) ''reboot'' PNone
   = ([], None)"
  using beolink_command_relay
          [where B = whole_floats and command = "''set_volume_level''"
             and parameter = "PStr ''1''" and f = 1
             and leader = "\<lparr>leader_friendly_name = ''Kitchen'',
                             leader_jid = ''1.1.1@products.bang-olufsen.com''\<rparr>"
             and e = "(BangOlufsenMediaPlayer ''1.1.2@products.bang-olufsen.com'' 100 5)
                \<lparr>mp_remote_leader := Some \<lparr>leader_friendly_name = ''Kitchen'',
                                            leader_jid = ''1.1.1@products.bang-olufsen.com''\<rparr>\<rparr>"]
        beolink_command_relay
          [where B = whole_floats and command = "''volume_up''"
             and e = "BangOlufsenMediaPlayer ''1.1.1@products.bang-olufsen.com'' 100 5"]
        beolink_command_relay
          [where B = whole_floats and command = "''reboot''" and parameter = PNone
             and e = "BangOlufsenMediaPlayer ''1.1.1@products.bang-olufsen.com'' 100 5"]
  by (simp add: BangOlufsenMediaPlayer_def whole_floats_def decimal_int_def digit_value_def
        py_float_def BEOLINK_LEADER_COMMAND_def ACCEPTED_COMMANDS_def FLOAT_PARAMETERS_def
        BOOL_PARAMETERS_def STR_PARAMETERS_def NONE_PARAMETERS_def)

section \<open>Further properties\<close>

text \<open>
  An exception that the \<^verbatim>\<open>except\<close> clause of a configuration step catches, but whose class
  is none of the three keys of the reason dict (an instance of a proper subclass), makes
  the step end in a KeyError after its one request instead of an abort.
\<close>

theorem request_error_of_subclass_is_key_error:
  assumes "isinstance error ''ApiException'' \<or> isinstance error ''ClientConnectorError''
           \<or> isinstance error ''TimeoutError''"
    and "exc_type error \<noteq> ''ApiException''"
    and "exc_type error \<noteq> ''ClientConnectorError''"
    and "exc_type error \<noteq> ''TimeoutError''"
  shows "request_error_result error = Raised KeyError
       \<and> (get_volume_settings client = Inl error \<longrightarrow>
            async_step_init client entry None
              = ([GetVolumeSettings (Some 3)], Raised KeyError))
       \<and> (get_beolink_self client = Inl error \<longrightarrow> ui_host ui = Some h \<longrightarrow>
            ui_model ui = Some m \<longrightarrow> ip_address_valid H h \<longrightarrow>
            async_step_user H client flow (Some ui)
              = (flow\<lparr>cf_host := h, cf_model := m\<rparr>, [GetBeolinkSelf (Some 3)],
                 Raised KeyError))"
proof -
  from assms(2-4) have "map_of abort_reasons (exc_type error) = None"
    by (simp add: abort_reasons_def)
  with assms(1) have r: "request_error_result error = Raised KeyError"
    by (simp add: request_error_result_def)
  then show ?thesis
    by (simp add: async_step_init_def async_step_user_def Let_def)
qed

theorem request_error_of_subclass_is_key_error_witness:
  "async_step_init
     \<lparr>get_beolink_self = Inl (PyExc ''NotFoundException'' [''ApiException'', ''Exception'']),
      get_volume_settings = Inl (PyExc ''NotFoundException'' [''ApiException'', ''Exception''])\<rparr>
     balance_entry None
   = ([GetVolumeSettings (Some 3)], Raised KeyError)"
  using request_error_of_subclass_is_key_error
    [where error = "PyExc ''NotFoundException'' [''ApiException'', ''Exception'']"
       and client = "\<lparr>get_beolink_self =
                         Inl (PyExc ''NotFoundException'' [''ApiException'', ''Exception'']),
                       get_volume_settings =
                         Inl (PyExc ''NotFoundException'' [''ApiException'', ''Exception''])\<rparr>"
       and entry = balance_entry]
  by (simp add: isinstance_def)

text \<open>
  The parameter of \<^verbatim>\<open>mute_volume\<close> is converted with \<^verbatim>\<open>bool\<close>, that is by truthiness:
  every non-empty string, \<^verbatim>\<open>"False"\<close> included, becomes \<^verbatim>\<open>True\<close>, and a missing
  parameter becomes \<^verbatim>\<open>False\<close>. On a device without a remote leader the method is then
  called with that value.
\<close>

theorem mute_volume_parameter_by_truthiness:
  assumes "mp_remote_leader e = None"
  shows "(s \<noteq> [] \<longrightarrow>
            async_beolink_leader_command B e ''mute_volume'' (PStr s)
              = ([MethodCall ''async_mute_volume'' [PBool True]], None))
       \<and> async_beolink_leader_command B e ''mute_volume'' (PStr [])
           = ([MethodCall ''async_mute_volume'' [PBool False]], None)
       \<and> async_beolink_leader_command B e ''mute_volume'' PNone
           = ([MethodCall ''async_mute_volume'' [PBool False]], None)"
  using assms
  by (simp add: async_beolink_leader_command_def ACCEPTED_COMMANDS_LISTS_def
        FLOAT_PARAMETERS_def BOOL_PARAMETERS_def STR_PARAMETERS_def NONE_PARAMETERS_def
        leader_check_parameter_def call_type_def emit_def py_bool_def)

theorem mute_volume_parameter_by_truthiness_witness:
  "async_beolink_leader_command whole_floats
     (BangOlufsenMediaPlayer ''1.1.1@products.bang-olufsen.com'' 100 5) ''mute_volume''
     (PStr ''False'')
   = ([MethodCall ''async_mute_volume'' [PBool True]], None)"
  using mute_volume_parameter_by_truthiness
    [where B = whole_floats and s = "''False''"
       and e = "BangOlufsenMediaPlayer ''1.1.1@products.bang-olufsen.com'' 100 5"]
  by (simp add: BangOlufsenMediaPlayer_def)

text \<open>
  The aborts of the two configuration steps, pair by pair. The user step aborts with
  api\_exception, client\_connector\_error or timeout\_error exactly when it reaches its
  request and the exception raised has the class ApiException, ClientConnectorError or
  TimeoutError itself; the options step does so exactly when it has no user input and
  the exception raised has that class itself.
\<close>

theorem config_steps_abort_for_exact_class:
  "((snd (snd (async_step_user H client flow user_input)) = Abort ''api_exception'') =
      (\<exists>ui h m e. user_input = Some ui \<and> ui_host ui = Some h \<and> ui_model ui = Some m
         \<and> ip_address_valid H h \<and> get_beolink_self client = Inl e
         \<and> exc_type e = ''ApiException''))
   \<and> ((snd (snd (async_step_user H client flow user_input)) = Abort ''client_connector_error'') =
      (\<exists>ui h m e. user_input = Some ui \<and> ui_host ui = Some h \<and> ui_model ui = Some m
         \<and> ip_address_valid H h \<and> get_beolink_self client = Inl e
         \<and> exc_type e = ''ClientConnectorError''))
   \<and> ((snd (snd (async_step_user H client flow user_input)) = Abort ''timeout_error'') =
      (\<exists>ui h m e. user_input = Some ui \<and> ui_host ui = Some h \<and> ui_model ui = Some m
         \<and> ip_address_valid H h \<and> get_beolink_self client = Inl e
         \<and> exc_type e = ''TimeoutError''))
   \<and> ((snd (async_step_init client entry options_input) = Abort ''api_exception'') =
      (options_input = None
       \<and> (\<exists>e. get_volume_settings client = Inl e \<and> exc_type e = ''ApiException'')))
   \<and> ((snd (async_step_init client entry options_input) = Abort ''client_connector_error'') =
      (options_input = None
       \<and> (\<exists>e. get_volume_settings client = Inl e \<and> exc_type e = ''ClientConnectorError'')))
   \<and> ((snd (async_step_init client entry options_input) = Abort ''timeout_error'') =
      (options_input = None
       \<and> (\<exists>e. get_volume_settings client = Inl e \<and> exc_type e = ''TimeoutError'')))"
proof -
  have api: "(''ApiException'', ''api_exception'') \<in> set abort_reasons"
    and con: "(''ClientConnectorError'', ''client_connector_error'') \<in> set abort_reasons"
    and tim: "(''TimeoutError'', ''timeout_error'') \<in> set abort_reasons"
    by (simp_all add: abort_reasons_def)
  note g = config_steps_abort_exactly_on_request_error
  note u = g[THEN conjunct1]
  note i = g[THEN conjunct2, THEN conjunct2, THEN conjunct1]
  show ?thesis
    by (intro conjI)
       (rule u[OF api] u[OF con] u[OF tim] i[OF api] i[OF con] i[OF tim])+
qed

theorem config_steps_abort_for_exact_class_witness:
  "snd (snd (async_step_user open_host silent_device BangOlufsenConfigFlowHandler
               (Some balance_input))) = Abort ''timeout_error''
   \<and> snd (async_step_init silent_device balance_entry None) = Abort ''timeout_error''
   \<and> snd (async_step_init not_found_device balance_entry None) \<noteq> Abort ''api_exception''"
  using config_steps_abort_for_exact_class
          [where H = open_host and client = silent_device
             and flow = BangOlufsenConfigFlowHandler and user_input = "Some balance_input"
             and entry = balance_entry and options_input = None]
        config_steps_abort_for_exact_class
          [where client = not_found_device and entry = balance_entry and options_input = None]
  by (simp add: silent_device_def not_found_device_def NotFoundException_def
        balance_input_def open_host_def UserInput_empty_def)

end
